theory Spec2Isabelle
  imports Main "HOL-Library.AList"
begin

section \<open>Data model (backend/src/types/index.ts)\<close>

datatype StoreEngine = MEDUSA | WOOCOMMERCE

text \<open>The string value of each enum member, as it is written into a namespace label.\<close>

fun engine_value :: "StoreEngine \<Rightarrow> string" where
  "engine_value MEDUSA = ''medusa''"
| "engine_value WOOCOMMERCE = ''woocommerce''"

datatype StoreStatus = PROVISIONING | READY | FAILED | DELETING | DELETED

record Urls =
  storefront :: "string option"
  admin :: "string option"

text \<open>
  The interface \<open>Store\<close>. The field \<open>id\<close> is called \<open>store_id\<close> here, since
  \<open>id\<close> is the identity function of HOL. The optional field \<open>error\<close> is an option.
\<close>

record Store =
  store_id :: string
  name :: string
  engine :: StoreEngine
  status :: StoreStatus
  namespace :: string
  urls :: Urls
  createdAt :: string
  error :: "string option"

record CreateStoreRequest =
  req_name :: string
  req_engine :: StoreEngine

record StoreResourceStatus =
  deployment :: bool
  service :: bool
  ingress :: bool
  database :: bool
  secrets :: bool

record ResourceQuota =
  cpuRequest :: string
  cpuLimit :: string
  memoryRequest :: string
  memoryLimit :: string
  storage :: string

section \<open>The resource manager, the clock and the random sources\<close>

text \<open>
  A value thrown in the program: an \<open>Error\<close> object with its \<open>message\<close>, and for an
  error of the cluster API the HTTP status read by \<open>error.response?.statusCode\<close>
  (\<open>None\<close> when the error has no response).
\<close>

record js_error =
  message :: string
  response_statusCode :: "nat option"

definition Error :: "string \<Rightarrow> js_error" where
  "Error msg = \<lparr>message = msg, response_statusCode = None\<rparr>"

record DbCredentials =
  username :: string
  password :: string
  db_database :: string

record ServicePort =
  port_name :: string
  port :: nat
  targetPort :: nat

text \<open>The \<open>cpu\<close> and \<open>memory\<close> of a container's requests and of its limits.\<close>

record ContainerResources =
  requests :: "string \<times> string"
  limits :: "string \<times> string"

text \<open>
  The requests the client sends to the cluster API, each with the arguments the client
  method received (the constant parts of each manifest are fixed by the method).
\<close>

datatype api_call =
    CreateNamespace string "(string \<times> string) list"
  | DeleteNamespace string
  | CreateNamespacedSecret string string "(string \<times> string) list"
  | CreateNamespacedPersistentVolumeClaim string string string
  | CreateNamespacedService string string "(string \<times> string) list" "ServicePort list"
  | CreateNamespacedDeployment string string string nat "(string \<times> string) list"
      "(string \<times> string) list" ContainerResources
  | CreateNamespacedStatefulSet string string string "(string \<times> string) list"
      "(string \<times> string) list" string string
  | CreateNamespacedIngress string string string string nat string
  | CreateNamespacedResourceQuota string "(string \<times> string) list"
  | ReadNamespacedDeployment string string
  | ReadNamespacedService string string
  | ReadNamespacedIngress string string
  | ReadNamespacedStatefulSet string string
  | ReadNamespacedSecret string string
  | ListNamespace string

text \<open>
  The body of a successful response, as far as the program reads it:
  \<open>body.status?.availableReplicas\<close> of a deployment, \<open>body.status?.readyReplicas\<close> of a
  stateful set, and the \<open>metadata?.name\<close> of every item of a namespace list.
\<close>

datatype api_body =
    NoBody
  | DeploymentBody "int option"
  | StatefulSetBody "int option"
  | NamespaceList "string option list"

text \<open>
  The world outside the process: the clock read by \<open>Date.now()\<close> (milliseconds), the
  requests sent to the cluster so far (oldest first), and the number of random values
  drawn so far. Output to the console is not modelled.
\<close>

record world =
  now :: int
  calls :: "api_call list"
  draws :: nat

text \<open>
  What the program does not decide: the answer of the cluster to each request and the
  time the request takes, the lateness of a timer, the values of \<open>uuidv4()\<close> and
  \<open>Math.random()\<close>, the formatting of a date, and the process environment. The answer
  and the time may depend on everything that happened before. A request and a timer
  take a natural number of milliseconds: the clock does not go back.
\<close>

record env =
  respond :: "world \<Rightarrow> api_call \<Rightarrow> js_error + api_body"
  latency :: "world \<Rightarrow> api_call \<Rightarrow> nat"
  timer_lag :: "world \<Rightarrow> nat"
  uuidv4 :: "nat \<Rightarrow> string"
  Math_random :: "nat \<Rightarrow> nat"
  toISOString :: "int \<Rightarrow> string"
  process_env :: "string \<Rightarrow> string option"

text \<open>\<open>process.env.KEY || dflt\<close>: an unset or empty variable gives the default.\<close>

definition env_or :: "env \<Rightarrow> string \<Rightarrow> string \<Rightarrow> string" where
  "env_or e key dflt =
     (case process_env e key of
        None \<Rightarrow> dflt
      | Some v \<Rightarrow> if v = [] then dflt else v)"

text \<open>One awaited request: it is recorded, the answer comes from the cluster, time passes.\<close>

definition api :: "env \<Rightarrow> api_call \<Rightarrow> world \<Rightarrow> (js_error + api_body) \<times> world" where
  "api e c w =
     (respond e w c, w\<lparr>now := now w + int (latency e w c), calls := calls w @ [c]\<rparr>)"

text \<open>\<open>await new Promise(resolve => setTimeout(resolve, ms))\<close>\<close>

definition sleep :: "env \<Rightarrow> int \<Rightarrow> world \<Rightarrow> world" where
  "sleep e ms w = w\<lparr>now := now w + ms + int (timer_lag e w)\<rparr>"

text \<open>Sequencing of awaited calls: a thrown error ends the sequence.\<close>

definition and_then ::
  "(world \<Rightarrow> (js_error + 'a) \<times> world) \<Rightarrow> ('a \<Rightarrow> world \<Rightarrow> (js_error + 'b) \<times> world) \<Rightarrow>
   world \<Rightarrow> (js_error + 'b) \<times> world" where
  "and_then m f w =
     (case m w of
        (Inl err, w') \<Rightarrow> (Inl err, w')
      | (Inr x, w') \<Rightarrow> f x w')"

section \<open>KubernetesClient (backend/src/utils/k8s-client.ts)\<close>

text \<open>
  Every create method has the same shape: send the request, and swallow an error whose
  status code is 409 (already exists); any other error is thrown again.
\<close>

definition create_ignoring ::
  "nat \<Rightarrow> env \<Rightarrow> api_call \<Rightarrow> world \<Rightarrow> (js_error + unit) \<times> world" where
  "create_ignoring code e c w =
     (case api e c w of
        (Inl err, w') \<Rightarrow>
          if response_statusCode err \<noteq> Some code then (Inl err, w') else (Inr (), w')
      | (Inr _, w') \<Rightarrow> (Inr (), w'))"

definition createNamespace ::
  "env \<Rightarrow> string \<Rightarrow> (string \<times> string) list \<Rightarrow> world \<Rightarrow> (js_error + unit) \<times> world" where
  "createNamespace e nm labels =
     create_ignoring 409 e
       (CreateNamespace nm
          (fold (\<lambda>(k, v). AList.update k v) labels
             [(''app.kubernetes.io/managed-by'', ''store-platform'')]))"

definition deleteNamespace :: "env \<Rightarrow> string \<Rightarrow> world \<Rightarrow> (js_error + unit) \<times> world" where
  "deleteNamespace e nm = create_ignoring 404 e (DeleteNamespace nm)"

definition createSecret ::
  "env \<Rightarrow> string \<Rightarrow> string \<Rightarrow> (string \<times> string) list \<Rightarrow> world \<Rightarrow> (js_error + unit) \<times> world" where
  "createSecret e ns nm data = create_ignoring 409 e (CreateNamespacedSecret ns nm data)"

definition createPVC ::
  "env \<Rightarrow> string \<Rightarrow> string \<Rightarrow> string \<Rightarrow> world \<Rightarrow> (js_error + unit) \<times> world" where
  "createPVC e ns nm storageSize =
     create_ignoring 409 e (CreateNamespacedPersistentVolumeClaim ns nm storageSize)"

definition createService ::
  "env \<Rightarrow> string \<Rightarrow> string \<Rightarrow> (string \<times> string) list \<Rightarrow> ServicePort list \<Rightarrow> world \<Rightarrow>
   (js_error + unit) \<times> world" where
  "createService e ns nm selector ports =
     create_ignoring 409 e (CreateNamespacedService ns nm selector ports)"

definition createDeployment ::
  "env \<Rightarrow> string \<Rightarrow> string \<Rightarrow> string \<Rightarrow> nat \<Rightarrow> (string \<times> string) list \<Rightarrow>
   (string \<times> string) list \<Rightarrow> ContainerResources option \<Rightarrow> world \<Rightarrow> (js_error + unit) \<times> world" where
  "createDeployment e ns nm img replicas labels envs resources =
     create_ignoring 409 e
       (CreateNamespacedDeployment ns nm img replicas labels envs
          (case resources of
             Some r \<Rightarrow> r
           | None \<Rightarrow> \<lparr>requests = (''100m'', ''256Mi''), limits = (''500m'', ''1Gi'')\<rparr>))"

definition createStatefulSet ::
  "env \<Rightarrow> string \<Rightarrow> string \<Rightarrow> string \<Rightarrow> (string \<times> string) list \<Rightarrow> (string \<times> string) list \<Rightarrow>
   string \<Rightarrow> string \<Rightarrow> world \<Rightarrow> (js_error + unit) \<times> world" where
  "createStatefulSet e ns nm img labels envs volumeClaimName volumeMountPath =
     create_ignoring 409 e
       (CreateNamespacedStatefulSet ns nm img labels envs volumeClaimName volumeMountPath)"

definition createIngress ::
  "env \<Rightarrow> string \<Rightarrow> string \<Rightarrow> string \<Rightarrow> string \<Rightarrow> nat \<Rightarrow> string \<Rightarrow> world \<Rightarrow>
   (js_error + unit) \<times> world" where
  "createIngress e ns nm host serviceName servicePort ingressClass =
     create_ignoring 409 e
       (CreateNamespacedIngress ns nm host serviceName servicePort ingressClass)"

definition createResourceQuota ::
  "env \<Rightarrow> string \<Rightarrow> string \<Rightarrow> string \<Rightarrow> string \<Rightarrow> world \<Rightarrow> (js_error + unit) \<times> world" where
  "createResourceQuota e ns cpuLimit' memoryLimit' storageLimit =
     create_ignoring 409 e
       (CreateNamespacedResourceQuota ns
          [(''requests.cpu'', cpuLimit'),
           (''requests.memory'', memoryLimit'),
           (''requests.storage'', storageLimit),
           (''persistentvolumeclaims'', ''5'')])"

text \<open>
  \<open>body.status?.availableReplicas || 0\<close> and \<open>body.status?.readyReplicas || 0\<close>: a
  missing number counts as 0.
\<close>

fun availableReplicas :: "api_body \<Rightarrow> int" where
  "availableReplicas (DeploymentBody (Some n)) = n"
| "availableReplicas _ = 0"

fun readyReplicas :: "api_body \<Rightarrow> int" where
  "readyReplicas (StatefulSetBody (Some n)) = n"
| "readyReplicas _ = 0"

text \<open>
  \<open>checkResourceStatus\<close>: five reads in the order of the source inside one \<open>try\<close>; the
  first read that throws ends the block, and the status built so far is returned.
\<close>

definition checkResourceStatus ::
  "env \<Rightarrow> string \<Rightarrow> string \<Rightarrow> world \<Rightarrow> StoreResourceStatus \<times> world" where
  "checkResourceStatus e ns storeName w =
     (let status0 = \<lparr>deployment = False, service = False, ingress = False,
                     database = False, secrets = False\<rparr>
      in (case api e (ReadNamespacedDeployment (storeName @ ''-backend'') ns) w of
        (Inl err, w1) \<Rightarrow> (status0, w1)
      | (Inr dep, w1) \<Rightarrow>
         (let status1 = status0\<lparr>deployment := availableReplicas dep > 0\<rparr>
          in (case api e (ReadNamespacedService (storeName @ ''-backend'') ns) w1 of
            (Inl err, w2) \<Rightarrow> (status1, w2)
          | (Inr _, w2) \<Rightarrow>
             (let status2 = status1\<lparr>service := True\<rparr>
              in (case api e (ReadNamespacedIngress (storeName @ ''-ingress'') ns) w2 of
                (Inl err, w3) \<Rightarrow> (status2, w3)
              | (Inr _, w3) \<Rightarrow>
                 (let status3 = status2\<lparr>ingress := True\<rparr>
                  in (case api e (ReadNamespacedStatefulSet (storeName @ ''-db'') ns) w3 of
                    (Inl err, w4) \<Rightarrow> (status3, w4)
                  | (Inr db, w4) \<Rightarrow>
                     (let status4 = status3\<lparr>database := readyReplicas db > 0\<rparr>
                      in (case api e (ReadNamespacedSecret (storeName @ ''-secrets'') ns) w4 of
                        (Inl err, w5) \<Rightarrow> (status4, w5)
                      | (Inr _, w5) \<Rightarrow> (status4\<lparr>secrets := True\<rparr>, w5)))))))))))"

text \<open>
  \<open>getStoreNamespaces\<close>: the names of the namespaces with the platform's label, the
  empty names filtered out; any error gives the empty list.
\<close>

definition getStoreNamespaces :: "env \<Rightarrow> world \<Rightarrow> string list \<times> world" where
  "getStoreNamespaces e w =
     (case api e (ListNamespace ''app.kubernetes.io/managed-by=store-platform'') w of
        (Inr (NamespaceList items), w') \<Rightarrow>
          (filter (\<lambda>s. s \<noteq> []) (map (\<lambda>n. case n of None \<Rightarrow> [] | Some s \<Rightarrow> s) items), w')
      | (_, w') \<Rightarrow> ([], w'))"

section \<open>StoreOrchestrationService (backend/src/services/store-service.ts)\<close>

text \<open>
  The service object. \<open>Store\<close> objects are shared between the map and the tasks that
  hold them, so they live in a store of their own: \<open>objs\<close> holds every \<open>Store\<close> object
  allocated so far and a reference is an index into it. \<open>stores\<close> is the
  \<open>Map<string, Store>\<close>: its keys in insertion order, each with the reference it holds.
\<close>

record StoreOrchestrationService =
  objs :: "Store list"
  stores :: "(string \<times> nat) list"
  defaultDomain :: string
  ingressClass :: string

definition lookup :: "StoreOrchestrationService \<Rightarrow> string \<Rightarrow> nat option" where
  "lookup svc storeId = map_of (stores svc) storeId"

text \<open>Assignments to the fields of the object behind a reference.\<close>

definition modify :: "nat \<Rightarrow> (Store \<Rightarrow> Store) \<Rightarrow> StoreOrchestrationService \<Rightarrow> StoreOrchestrationService" where
  "modify ref f svc = svc\<lparr>objs := (objs svc)[ref := f (objs svc ! ref)]\<rparr>"

text \<open>\<open>this.stores.set(store.id, store)\<close> for a freshly built object.\<close>

definition register :: "Store \<Rightarrow> StoreOrchestrationService \<Rightarrow> StoreOrchestrationService" where
  "register store svc =
     svc\<lparr>objs := objs svc @ [store],
         stores := AList.update (store_id store) (length (objs svc)) (stores svc)\<rparr>"

text \<open>
  \<open>name.toLowerCase().replace(/[^a-z0-9]/g, '-')\<close>, on the characters of HOL (bytes): the
  letters A to Z are lowered, every other character that is not a lower-case letter or a
  digit becomes a hyphen. This is what JavaScript does on ASCII names; the case mapping
  of Unicode is not modelled.
\<close>

definition toLowerCase :: "string \<Rightarrow> string" where
  "toLowerCase s =
     map (\<lambda>c. case map_of (zip ''ABCDEFGHIJKLMNOPQRSTUVWXYZ'' ''abcdefghijklmnopqrstuvwxyz'') c of
                None \<Rightarrow> c
              | Some l \<Rightarrow> l) s"

definition is_lower_or_digit :: "char \<Rightarrow> bool" where
  "is_lower_or_digit c = (c \<in> set ''abcdefghijklmnopqrstuvwxyz0123456789'')"

definition sanitize :: "string \<Rightarrow> string" where
  "sanitize s = map (\<lambda>c. if is_lower_or_digit c then c else CHR ''-'') (toLowerCase s)"

text \<open>Lines 58 to 72 of \<open>createStore\<close>, for a given result of \<open>uuidv4()\<close> and a given date.\<close>

definition new_store :: "CreateStoreRequest \<Rightarrow> string \<Rightarrow> string \<Rightarrow> Store" where
  "new_store request uuid created =
     (let storeId = sanitize (req_name request) @ ''-'' @ take 8 uuid
      in \<lparr>store_id = storeId,
          name = req_name request,
          engine = req_engine request,
          status = PROVISIONING,
          namespace = ''store-'' @ storeId,
          urls = \<lparr>storefront = None, admin = None\<rparr>,
          createdAt = created,
          error = None\<rparr>)"

text \<open>
  \<open>createStore\<close>, up to its \<open>return\<close>: the new object is registered and a reference to it
  is returned. The provisioning it starts runs detached (\<open>provisioning_task\<close> below).
\<close>

definition createStore ::
  "env \<Rightarrow> CreateStoreRequest \<Rightarrow> StoreOrchestrationService \<Rightarrow> world \<Rightarrow>
   nat \<times> StoreOrchestrationService \<times> world" where
  "createStore e request svc w =
     (let store = new_store request (uuidv4 e (draws w)) (toISOString e (now w))
      in (length (objs svc), register store svc, w\<lparr>draws := Suc (draws w)\<rparr>))"

text \<open>
  \<open>generatePassword\<close>: one character of the charset for each random draw. The index
  \<open>Math.floor(Math.random() * charset.length)\<close> is some number below the length of the
  charset: the draw modulo that length.
\<close>

definition charset :: string where
  "charset = ''abcdefghijklmnopqrstuvwxyzABCDEFGHIJKLMNOPQRSTUVWXYZ0123456789!@#$%^&*''"

fun generatePassword_loop :: "env \<Rightarrow> nat \<Rightarrow> string \<Rightarrow> world \<Rightarrow> string \<times> world" where
  "generatePassword_loop e 0 pw w = (pw, w)"
| "generatePassword_loop e (Suc n) pw w =
     generatePassword_loop e n
       (pw @ [charset ! (Math_random e (draws w) mod length charset)])
       (w\<lparr>draws := Suc (draws w)\<rparr>)"

definition generatePassword :: "env \<Rightarrow> nat \<Rightarrow> world \<Rightarrow> (js_error + string) \<times> world" where
  "generatePassword e len w = (case generatePassword_loop e len [] w of (pw, w') \<Rightarrow> (Inr pw, w'))"

definition createStoreSecrets ::
  "env \<Rightarrow> string \<Rightarrow> string \<Rightarrow> DbCredentials \<Rightarrow> world \<Rightarrow> (js_error + unit) \<times> world" where
  "createStoreSecrets e ns storeName dbCredentials =
     createSecret e ns (storeName @ ''-secrets'')
       [(''DB_USERNAME'', username dbCredentials),
        (''DB_PASSWORD'', password dbCredentials),
        (''DB_NAME'', db_database dbCredentials)]"

definition createPostgresDatabase ::
  "env \<Rightarrow> string \<Rightarrow> string \<Rightarrow> DbCredentials \<Rightarrow> world \<Rightarrow> (js_error + unit) \<times> world" where
  "createPostgresDatabase e ns storeName credentials =
     and_then (createPVC e ns (storeName @ ''-db-pvc'') ''5Gi'') (\<lambda>_.
     and_then (createService e ns (storeName @ ''-db'')
                 [(''app'', storeName), (''component'', ''database'')]
                 [\<lparr>port_name = ''postgres'', port = 5432, targetPort = 5432\<rparr>]) (\<lambda>_.
     createStatefulSet e ns (storeName @ ''-db'') ''postgres:15-alpine''
       [(''app'', storeName), (''component'', ''database'')]
       [(''POSTGRES_USER'', username credentials),
        (''POSTGRES_PASSWORD'', password credentials),
        (''POSTGRES_DB'', db_database credentials),
        (''PGDATA'', ''/var/lib/postgresql/data/pgdata'')]
       (storeName @ ''-db-pvc'')
       ''/var/lib/postgresql/data''))"

definition createRedis :: "env \<Rightarrow> string \<Rightarrow> string \<Rightarrow> world \<Rightarrow> (js_error + unit) \<times> world" where
  "createRedis e ns storeName =
     and_then (createDeployment e ns (storeName @ ''-redis'') ''redis:7-alpine'' 1
                 [(''app'', storeName), (''component'', ''redis'')] []
                 (Some \<lparr>requests = (''50m'', ''128Mi''), limits = (''200m'', ''256Mi'')\<rparr>)) (\<lambda>_.
     createService e ns (storeName @ ''-redis'')
       [(''app'', storeName), (''component'', ''redis'')]
       [\<lparr>port_name = ''redis'', port = 6379, targetPort = 6379\<rparr>])"

definition provisionMedusaStore ::
  "env \<Rightarrow> StoreOrchestrationService \<Rightarrow> string \<Rightarrow> string \<Rightarrow> DbCredentials \<Rightarrow> world \<Rightarrow>
   (js_error + unit) \<times> world" where
  "provisionMedusaStore e svc ns storeName dbCredentials =
     and_then (createPostgresDatabase e ns storeName dbCredentials) (\<lambda>_.
     and_then (generatePassword e 32) (\<lambda>jwt_secret.
     and_then (generatePassword e 32) (\<lambda>cookie_secret.
     and_then (createDeployment e ns (storeName @ ''-backend'') ''medusajs/medusa:latest'' 1
                 [(''app'', storeName), (''component'', ''backend'')]
                 [(''DATABASE_URL'',
                     ''postgres://'' @ username dbCredentials @ '':'' @ password dbCredentials
                       @ ''@'' @ storeName @ ''-db:5432/'' @ db_database dbCredentials),
                  (''REDIS_URL'', ''redis://'' @ storeName @ ''-redis:6379''),
                  (''JWT_SECRET'', jwt_secret),
                  (''COOKIE_SECRET'', cookie_secret),
                  (''PORT'', ''9000'')]
                 None) (\<lambda>_.
     and_then (createService e ns (storeName @ ''-backend'')
                 [(''app'', storeName), (''component'', ''backend'')]
                 [\<lparr>port_name = ''http'', port = 9000, targetPort = 9000\<rparr>]) (\<lambda>_.
     and_then (createRedis e ns storeName) (\<lambda>_.
     createIngress e ns (storeName @ ''-ingress'') (storeName @ defaultDomain svc)
       (storeName @ ''-backend'') 9000 (ingressClass svc)))))))"

definition provisionWooCommerceStore ::
  "env \<Rightarrow> string \<Rightarrow> string \<Rightarrow> DbCredentials \<Rightarrow> world \<Rightarrow> (js_error + unit) \<times> world" where
  "provisionWooCommerceStore e ns storeName dbCredentials w =
     (Inl (Error ''WooCommerce provisioning not yet implemented''), w)"

text \<open>
  The test of \<open>waitForStoreReady\<close> and of \<open>refreshStoreStatus\<close>:
  \<open>status.deployment && status.database && status.service && status.ingress\<close>.
\<close>

definition resources_ready :: "StoreResourceStatus \<Rightarrow> bool" where
  "resources_ready st = (deployment st \<and> database st \<and> service st \<and> ingress st)"

text \<open>
  The loop of \<open>waitForStoreReady\<close>. The test \<open>(Date.now() - startTime) / 1000 <
  timeoutSeconds\<close> is written on whole milliseconds, and the interval is the constant
  \<open>checkInterval = 5000\<close>. Every round moves the clock forward by the interval at least,
  which is why the loop ends. \<open>timeout_message\<close> is the template string of the error.
\<close>

definition timeout_message :: "string \<Rightarrow> string" where
  "timeout_message storeName = ''Timeout waiting for store '' @ storeName @ '' to be ready''"

function waitForStoreReady_loop ::
  "env \<Rightarrow> string \<Rightarrow> string \<Rightarrow> int \<Rightarrow> int \<Rightarrow> world \<Rightarrow> (js_error + unit) \<times> world" where
  "waitForStoreReady_loop e ns storeName timeoutSeconds startTime w =
     (if now w - startTime < timeoutSeconds * 1000 then
        (case checkResourceStatus e ns storeName w of
           (st, w') \<Rightarrow>
             if resources_ready st then (Inr (), w')
             else waitForStoreReady_loop e ns storeName timeoutSeconds startTime (sleep e 5000 w'))
      else (Inl (Error (timeout_message storeName)), w))"
  by pat_completeness auto
termination
proof (relation "measure (\<lambda>(e, ns, sn, t, st, w). nat (st + t * 1000 - now w))", goal_cases)
  case 1
  show ?case by simp
next
  case (2 e ns storeName timeoutSeconds startTime w st w')
  have "now w \<le> now w'"
    using 2(2)
    by (auto simp: checkResourceStatus_def api_def Let_def split: prod.splits sum.splits)
  then show ?case
    using 2(1) by (simp add: sleep_def)
qed

declare waitForStoreReady_loop.simps [simp del]

definition waitForStoreReady ::
  "env \<Rightarrow> string \<Rightarrow> string \<Rightarrow> int \<Rightarrow> world \<Rightarrow> (js_error + unit) \<times> world" where
  "waitForStoreReady e ns storeName timeoutSeconds w =
     waitForStoreReady_loop e ns storeName timeoutSeconds (now w) w"

text \<open>\<open>storeName.replace(/-/g, '_')\<close>\<close>

definition hyphens_to_underscores :: "string \<Rightarrow> string" where
  "hyphens_to_underscores s = map (\<lambda>c. if c = CHR ''-'' then CHR ''_'' else c) s"

text \<open>
  The \<open>try\<close> block of \<open>provisionStore\<close>: steps 1 to 5, which create the resources,
  then step 6, which waits for them with the default timeout of 300 seconds. The block
  reads the namespace and the name of the store object; the quota record of step 2 is
  built and not used.
\<close>

definition provision_resources ::
  "env \<Rightarrow> StoreOrchestrationService \<Rightarrow> Store \<Rightarrow> string \<Rightarrow> StoreEngine \<Rightarrow> world \<Rightarrow>
   (js_error + unit) \<times> world" where
  "provision_resources e svc store storeId engine' =
     and_then (createNamespace e (namespace store)
                 [(''store-id'', storeId),
                  (''store-engine'', engine_value engine'),
                  (''store-name'', name store)]) (\<lambda>_.
     (let quota = \<lparr>cpuRequest = env_or e ''DEFAULT_CPU_REQUEST'' ''100m'',
                   cpuLimit = env_or e ''DEFAULT_CPU_LIMIT'' ''500m'',
                   memoryRequest = env_or e ''DEFAULT_MEMORY_REQUEST'' ''256Mi'',
                   memoryLimit = env_or e ''DEFAULT_MEMORY_LIMIT'' ''1Gi'',
                   storage = env_or e ''DEFAULT_STORAGE'' ''5Gi''\<rparr>
      in and_then (createResourceQuota e (namespace store) ''2'' ''4Gi'' ''10Gi'') (\<lambda>_.
         and_then (generatePassword e 16) (\<lambda>dbPassword.
         (let creds = \<lparr>username = ''storeuser'',
                       password = dbPassword,
                       db_database = hyphens_to_underscores storeId\<rparr>
          in and_then (createStoreSecrets e (namespace store) storeId creds) (\<lambda>_.
             (case engine' of
                MEDUSA \<Rightarrow> provisionMedusaStore e svc (namespace store) storeId creds
              | WOOCOMMERCE \<Rightarrow>
                  provisionWooCommerceStore e (namespace store) storeId creds)))))))"

definition provision_steps ::
  "env \<Rightarrow> StoreOrchestrationService \<Rightarrow> Store \<Rightarrow> string \<Rightarrow> StoreEngine \<Rightarrow> world \<Rightarrow>
   (js_error + unit) \<times> world" where
  "provision_steps e svc store storeId engine' =
     and_then (provision_resources e svc store storeId engine') (\<lambda>_.
     waitForStoreReady e (namespace store) storeId 300)"

text \<open>Step 7 of \<open>provisionStore\<close> (lines 148 to 152).\<close>

definition set_ready :: "string \<Rightarrow> nat \<Rightarrow> StoreOrchestrationService \<Rightarrow> StoreOrchestrationService" where
  "set_ready storeName ref svc =
     modify ref
       (\<lambda>s. s\<lparr>status := READY,
               urls := \<lparr>storefront = Some (''http://'' @ storeName @ defaultDomain svc),
                        admin = Some (''http://'' @ storeName @ ''-admin'' @ defaultDomain svc)\<rparr>\<rparr>)
       svc"

text \<open>
  The \<open>catch\<close> block of \<open>provisionStore\<close> (lines 158 and 159), which is also what the
  \<open>catch\<close> handler of \<open>createStore\<close> (lines 77 and 78) and, with another message, the
  \<open>catch\<close> block of \<open>deleteStore\<close> (lines 355 and 356) assign.
\<close>

definition set_failed :: "nat \<Rightarrow> string \<Rightarrow> StoreOrchestrationService \<Rightarrow> StoreOrchestrationService" where
  "set_failed ref msg svc = modify ref (\<lambda>s. s\<lparr>status := FAILED, error := Some msg\<rparr>) svc"

definition provisionStore ::
  "env \<Rightarrow> string \<Rightarrow> StoreEngine \<Rightarrow> StoreOrchestrationService \<Rightarrow> world \<Rightarrow>
   (js_error + unit) \<times> StoreOrchestrationService \<times> world" where
  "provisionStore e storeId engine' svc w =
     (case lookup svc storeId of
        None \<Rightarrow> (Inl (Error ''Store not found''), svc, w)
      | Some ref \<Rightarrow>
          (case provision_steps e svc (objs svc ! ref) storeId engine' w of
             (Inr _, w') \<Rightarrow> (Inr (), set_ready storeId ref svc, w')
           | (Inl err, w') \<Rightarrow> (Inl err, set_failed ref (message err) svc, w')))"

text \<open>
  The detached task that \<open>createStore\<close> starts for the object \<open>ref\<close> it has just
  registered (lines 75 to 79): \<open>provisionStore\<close>, and on an error the handler that
  marks the object failed.
\<close>

definition provisioning_task ::
  "env \<Rightarrow> nat \<Rightarrow> string \<Rightarrow> StoreEngine \<Rightarrow> StoreOrchestrationService \<Rightarrow> world \<Rightarrow>
   StoreOrchestrationService \<times> world" where
  "provisioning_task e ref storeId engine' svc w =
     (case provisionStore e storeId engine' svc w of
        (Inr _, svc', w') \<Rightarrow> (svc', w')
      | (Inl err, svc', w') \<Rightarrow> (set_failed ref (message err) svc', w'))"

text \<open>\<open>deleteStore\<close>: line 341, then lines 349 and 350 or lines 355 and 356.\<close>

definition mark_deleting :: "nat \<Rightarrow> StoreOrchestrationService \<Rightarrow> StoreOrchestrationService" where
  "mark_deleting ref svc = modify ref (\<lambda>s. s\<lparr>status := DELETING\<rparr>) svc"

definition delete_done :: "nat \<Rightarrow> string \<Rightarrow> StoreOrchestrationService \<Rightarrow> StoreOrchestrationService" where
  "delete_done ref storeId svc =
     (modify ref (\<lambda>s. s\<lparr>status := DELETED\<rparr>) svc)\<lparr>stores := AList.delete storeId (stores svc)\<rparr>"

definition deleteStore ::
  "env \<Rightarrow> string \<Rightarrow> StoreOrchestrationService \<Rightarrow> world \<Rightarrow>
   (js_error + unit) \<times> StoreOrchestrationService \<times> world" where
  "deleteStore e storeId svc w =
     (case lookup svc storeId of
        None \<Rightarrow> (Inl (Error ''Store not found''), svc, w)
      | Some ref \<Rightarrow>
          (let svc1 = mark_deleting ref svc
           in (case deleteNamespace e (namespace (objs svc1 ! ref)) w of
                 (Inr _, w') \<Rightarrow> (Inr (), delete_done ref storeId svc1, w')
               | (Inl err, w') \<Rightarrow>
                   (Inl err, set_failed ref (''Deletion failed: '' @ message err) svc1, w'))))"

definition getStore :: "StoreOrchestrationService \<Rightarrow> string \<Rightarrow> Store option" where
  "getStore svc storeId = map_option (\<lambda>ref. objs svc ! ref) (lookup svc storeId)"

definition getAllStores :: "StoreOrchestrationService \<Rightarrow> Store list" where
  "getAllStores svc = map (\<lambda>(k, ref). objs svc ! ref) (stores svc)"

text \<open>\<open>refreshStoreStatus\<close>; line 379 is \<open>refresh_ready\<close>. It returns the store object.\<close>

definition refresh_ready :: "nat \<Rightarrow> StoreOrchestrationService \<Rightarrow> StoreOrchestrationService" where
  "refresh_ready ref svc = modify ref (\<lambda>s. s\<lparr>status := READY\<rparr>) svc"

definition refreshStoreStatus ::
  "env \<Rightarrow> string \<Rightarrow> StoreOrchestrationService \<Rightarrow> world \<Rightarrow>
   (js_error + Store) \<times> StoreOrchestrationService \<times> world" where
  "refreshStoreStatus e storeId svc w =
     (case lookup svc storeId of
        None \<Rightarrow> (Inl (Error ''Store not found''), svc, w)
      | Some ref \<Rightarrow>
          if status (objs svc ! ref) = PROVISIONING then
            (case checkResourceStatus e (namespace (objs svc ! ref)) storeId w of
               (st, w') \<Rightarrow>
                 if resources_ready st
                 then (Inr (objs (refresh_ready ref svc) ! ref), refresh_ready ref svc, w')
                 else (Inr (objs svc ! ref), svc, w'))
          else (Inr (objs svc ! ref), svc, w))"

text \<open>
  \<open>loadExistingStores\<close>: one iteration of its loop for a namespace name (lines 35 to
  50), and the whole method. \<open>ns.replace('store-', '')\<close> removes the prefix that
  \<open>startsWith\<close> has just found.
\<close>

definition load_namespace ::
  "string \<Rightarrow> string \<Rightarrow> StoreOrchestrationService \<Rightarrow> StoreOrchestrationService" where
  "load_namespace created ns svc =
     (if take 6 ns = ''store-'' then
        (let storeId = drop 6 ns
         in register
              \<lparr>store_id = storeId,
               name = storeId,
               engine = MEDUSA,
               status = READY,
               namespace = ns,
               urls = \<lparr>storefront = Some (''http://'' @ storeId @ defaultDomain svc),
                        admin = Some (''http://'' @ storeId @ ''-admin'' @ defaultDomain svc)\<rparr>,
               createdAt = created,
               error = None\<rparr>
              svc)
      else svc)"

definition loadExistingStores ::
  "env \<Rightarrow> StoreOrchestrationService \<Rightarrow> world \<Rightarrow> StoreOrchestrationService \<times> world" where
  "loadExistingStores e svc w =
     (case getStoreNamespaces e w of
        (namespaces, w') \<Rightarrow> (fold (load_namespace (toISOString e (now w'))) namespaces svc, w'))"

text \<open>The constructor: the fields, then the stores found in the cluster.\<close>

definition empty_service :: "env \<Rightarrow> StoreOrchestrationService" where
  "empty_service e =
     \<lparr>objs = [], stores = [],
      defaultDomain = env_or e ''DEFAULT_DOMAIN'' ''.local'',
      ingressClass = env_or e ''INGRESS_CLASS'' ''nginx''\<rparr>"

definition new_StoreOrchestrationService ::
  "env \<Rightarrow> world \<Rightarrow> StoreOrchestrationService \<times> world" where
  "new_StoreOrchestrationService e w = loadExistingStores e (empty_service e) w"

section \<open>The service as a transition system\<close>

text \<open>
  The program is a single thread of asynchronous tasks: a task runs without interruption
  between two \<open>await\<close>s, and tasks interleave at the \<open>await\<close>s. The service object is
  only changed by the blocks below, each of which has no \<open>await\<close> inside; the calls to
  the cluster between them change nothing in the service. An event is one such block,
  with the values it got from outside:
  \<^item> \<open>Create\<close>: lines 58 to 72 of \<open>createStore\<close>, with the UUID and the date;
  \<^item> \<open>ProvisionReady\<close>: lines 148 to 152 of \<open>provisionStore\<close>;
  \<^item> \<open>Failed\<close>: lines 158 and 159 of \<open>provisionStore\<close>, lines 77 and 78 of
    \<open>createStore\<close>, lines 355 and 356 of \<open>deleteStore\<close>, with the message;
  \<^item> \<open>RefreshReady\<close>: line 379 of \<open>refreshStoreStatus\<close>;
  \<^item> \<open>DeleteMark\<close>: lines 336 to 341 of \<open>deleteStore\<close>;
  \<^item> \<open>DeleteDone\<close>: lines 349 and 350 of \<open>deleteStore\<close>;
  \<^item> \<open>LoadExisting\<close>: lines 34 to 51 of \<open>loadExistingStores\<close>, with the namespaces
    found and the date.
  The events take any reference and any order, which covers every interleaving of the
  tasks (and more).
\<close>

datatype event =
    Create CreateStoreRequest string string
  | ProvisionReady string nat
  | Failed nat string
  | RefreshReady nat
  | DeleteMark string
  | DeleteDone nat string
  | LoadExisting "string list" string

fun step :: "event \<Rightarrow> StoreOrchestrationService \<Rightarrow> StoreOrchestrationService" where
  "step (Create request uuid created) svc = register (new_store request uuid created) svc"
| "step (ProvisionReady storeName ref) svc = set_ready storeName ref svc"
| "step (Failed ref msg) svc = set_failed ref msg svc"
| "step (RefreshReady ref) svc = refresh_ready ref svc"
| "step (DeleteMark storeId) svc =
     (case lookup svc storeId of None \<Rightarrow> svc | Some ref \<Rightarrow> mark_deleting ref svc)"
| "step (DeleteDone ref storeId) svc = delete_done ref storeId svc"
| "step (LoadExisting namespaces created) svc = fold (load_namespace created) namespaces svc"

definition run :: "event list \<Rightarrow> StoreOrchestrationService \<Rightarrow> StoreOrchestrationService" where
  "run evs svc = fold step evs svc"

section \<open>StoreController.createStore\<close>

text \<open>
  The result of \<open>parseInt\<close>: not a number, or a whole number (the loss of precision of a
  double beyond \<open>2 ^ 53\<close> is not modelled).
\<close>

datatype js_number = NaN | Num int

definition js_whitespace :: "char \<Rightarrow> bool" where
  "js_whitespace c = ((of_char c :: nat) \<in> {9, 10, 11, 12, 13, 32})"

definition digit_value :: "char \<Rightarrow> nat" where
  "digit_value c =
     (let n = (of_char c :: nat)
      in if 48 \<le> n \<and> n \<le> 57 then n - 48
         else if 97 \<le> n \<and> n \<le> 122 then n - 87
         else if 65 \<le> n \<and> n \<le> 90 then n - 55
         else 99)"

text \<open>
  \<open>parseInt(s)\<close> with no radix: leading white space is skipped, a sign is read, the
  prefix \<open>0x\<close> or \<open>0X\<close> selects radix 16, and the longest prefix of digits is the number;
  with no digit the result is \<open>NaN\<close>.
\<close>

definition parseInt :: "string \<Rightarrow> js_number" where
  "parseInt s =
     (let s1 = dropWhile js_whitespace s;
          sign = (if take 1 s1 = ''-'' then - 1 else (1 :: int));
          s2 = (if take 1 s1 = ''-'' \<or> take 1 s1 = ''+'' then drop 1 s1 else s1);
          radix = (if take 2 s2 = ''0x'' \<or> take 2 s2 = ''0X'' then 16 else (10 :: nat));
          s3 = (if radix = 16 then drop 2 s2 else s2);
          ds = takeWhile (\<lambda>c. digit_value c < radix) s3
      in if ds = [] then NaN
         else Num (sign * int (foldl (\<lambda>a c. a * radix + digit_value c) 0 ds)))"

text \<open>The decimal digits of a number, for the template string of the error message.\<close>

fun decimal :: "nat \<Rightarrow> string" where
  "decimal n =
     (if n < 10 then [''0123456789'' ! n]
      else decimal (n div 10) @ [''0123456789'' ! (n mod 10)])"

fun number_toString :: "js_number \<Rightarrow> string" where
  "number_toString NaN = ''NaN''"
| "number_toString (Num n) = (if n < 0 then ''-'' @ decimal (nat (- n)) else decimal (nat n))"

text \<open>\<open>currentStores >= maxStores\<close>: false when \<open>maxStores\<close> is \<open>NaN\<close>.\<close>

fun ge_number :: "nat \<Rightarrow> js_number \<Rightarrow> bool" where
  "ge_number n NaN = False"
| "ge_number n (Num m) = (m \<le> int n)"

text \<open>
  The body of a create request: each of \<open>name\<close> and \<open>engine\<close> is absent or a string
  (a body with a value of another JSON type is outside this model).
\<close>

record CreateStoreBody =
  body_name :: "string option"
  body_engine :: "string option"

text \<open>\<open>Object.values(StoreEngine).includes(engine)\<close>\<close>

definition parse_engine :: "string \<Rightarrow> StoreEngine option" where
  "parse_engine s =
     (if s = ''medusa'' then Some MEDUSA
      else if s = ''woocommerce'' then Some WOOCOMMERCE
      else None)"

record ApiResponse =
  success :: bool
  data :: "Store option"
  resp_error :: "string option"
  resp_message :: "string option"

definition failure :: "string \<Rightarrow> ApiResponse" where
  "failure msg = \<lparr>success = False, data = None, resp_error = Some msg, resp_message = None\<rparr>"

text \<open>
  The handler of \<open>POST /api/stores\<close>: the HTTP status and the JSON body it sends, and
  the service and the world it leaves. \<open>!name || !engine\<close> holds for an absent and for
  an empty string.
\<close>

definition controller_createStore ::
  "env \<Rightarrow> CreateStoreBody \<Rightarrow> StoreOrchestrationService \<Rightarrow> world \<Rightarrow>
   (nat \<times> ApiResponse) \<times> StoreOrchestrationService \<times> world" where
  "controller_createStore e body svc w =
     (case (body_name body, body_engine body) of
        (Some nm, Some eng) \<Rightarrow>
          if nm = [] \<or> eng = [] then
            ((400, failure ''Missing required fields: name and engine''), svc, w)
          else
            (case parse_engine eng of
               None \<Rightarrow>
                 ((400, failure ''Invalid engine. Must be one of: medusa, woocommerce''), svc, w)
             | Some en \<Rightarrow>
                 (let maxStores = parseInt (env_or e ''MAX_STORES_PER_USER'' ''10'');
                      currentStores = length (getAllStores svc)
                  in if ge_number currentStores maxStores then
                       ((429, failure (''Maximum store limit reached (''
                                         @ number_toString maxStores @ '')'')), svc, w)
                     else
                       (case createStore e \<lparr>req_name = nm, req_engine = en\<rparr> svc w of
                          (ref, svc', w') \<Rightarrow>
                            ((202, \<lparr>success = True, data = Some (objs svc' ! ref),
                                    resp_error = None,
                                    resp_message = Some ''Store creation initiated''\<rparr>),
                             svc', w'))))
      | _ \<Rightarrow> ((400, failure ''Missing required fields: name and engine''), svc, w))"

section \<open>Clusters, requests and services for the examples\<close>

text \<open>
  An environment whose cluster answers each request by its kind alone, at once, with
  fixed values for everything else.
\<close>

definition simple_env :: "(api_call \<Rightarrow> js_error + api_body) \<Rightarrow> (nat \<Rightarrow> string) \<Rightarrow> env" where
  "simple_env r u =
     \<lparr>respond = (\<lambda>w c. r c),
      latency = (\<lambda>w c. 0),
      timer_lag = (\<lambda>w. 0),
      uuidv4 = u,
      Math_random = (\<lambda>n. n),
      toISOString = (\<lambda>t. ''2024-01-01T00:00:00.000Z''),
      process_env = (\<lambda>k. None)\<rparr>"

text \<open>A cluster where every request succeeds and both workloads have one replica up.\<close>

definition healthy :: "api_call \<Rightarrow> js_error + api_body" where
  "healthy c =
     (case c of
        ReadNamespacedDeployment _ _ \<Rightarrow> Inr (DeploymentBody (Some 1))
      | ReadNamespacedStatefulSet _ _ \<Rightarrow> Inr (StatefulSetBody (Some 1))
      | ListNamespace _ \<Rightarrow> Inr (NamespaceList [])
      | _ \<Rightarrow> Inr NoBody)"

text \<open>Two UUIDs that differ and start with the same eight characters.\<close>

definition uuids :: "nat \<Rightarrow> string" where
  "uuids n =
     (if n = 0 then ''3f2a9c1e-1111-4111-8111-111111111111''
      else ''3f2a9c1e-2222-4222-8222-222222222222'')"

definition api_error :: "nat \<Rightarrow> string \<Rightarrow> js_error" where
  "api_error code msg = \<lparr>message = msg, response_statusCode = Some code\<rparr>"

definition env_healthy :: env where
  "env_healthy = simple_env healthy uuids"

text \<open>The same cluster, where the ingress is never there.\<close>

definition env_no_ingress :: env where
  "env_no_ingress =
     simple_env
       (\<lambda>c. case c of
               ReadNamespacedIngress _ _ \<Rightarrow> Inl (api_error 404 ''Not Found'')
             | _ \<Rightarrow> healthy c)
       uuids"

text \<open>The same cluster, where the service may not read secrets.\<close>

definition env_secret_forbidden :: env where
  "env_secret_forbidden =
     simple_env
       (\<lambda>c. case c of
               ReadNamespacedSecret _ _ \<Rightarrow> Inl (api_error 403 ''Forbidden'')
             | _ \<Rightarrow> healthy c)
       uuids"

text \<open>A cluster that answers every request with an internal error.\<close>

definition env_down :: env where
  "env_down = simple_env (\<lambda>c. Inl (api_error 500 ''Internal Server Error'')) uuids"

definition world0 :: world where
  "world0 = \<lparr>now = 0, calls = [], draws = 0\<rparr>"

text \<open>A create request, and the service right after \<open>createStore\<close> has returned for it.\<close>

definition acme :: CreateStoreRequest where
  "acme = \<lparr>req_name = ''acme'', req_engine = MEDUSA\<rparr>"

definition svc_acme :: StoreOrchestrationService where
  "svc_acme = fst (snd (createStore env_healthy acme (empty_service env_healthy) world0))"

text \<open>The world after that first create request: one UUID has been drawn.\<close>

definition world1 :: world where
  "world1 = snd (snd (createStore env_healthy acme (empty_service env_healthy) world0))"

text \<open>The service after ten create requests with ten UUIDs.\<close>

definition ten_stores :: StoreOrchestrationService where
  "ten_stores =
     run (map (\<lambda>u. Create acme (u @ ''-0000-4000-8000-000000000000'') ''2024-01-01T00:00:00.000Z'')
            [''00000000'', ''00000001'', ''00000002'', ''00000003'', ''00000004'',
             ''00000005'', ''00000006'', ''00000007'', ''00000008'', ''00000009''])
         (empty_service env_healthy)"

text \<open>The healthy cluster, with two UUIDs that differ in their first eight characters.\<close>

definition env_fresh :: env where
  "env_fresh =
     simple_env healthy
       (\<lambda>n. if n = 0 then ''3f2a9c1e-1111-4111-8111-111111111111''
            else ''7b1d04aa-2222-4222-8222-222222222222'')"

text \<open>A create request for the stub engine, and the service after it.\<close>

definition shop :: CreateStoreRequest where
  "shop = \<lparr>req_name = ''shop'', req_engine = WOOCOMMERCE\<rparr>"

definition svc_shop :: StoreOrchestrationService where
  "svc_shop = fst (snd (createStore env_healthy shop (empty_service env_healthy) world0))"

text \<open>A process environment that configures a larger quota.\<close>

definition big_quota :: "string \<Rightarrow> string option" where
  "big_quota =
     map_of [(''DEFAULT_CPU_REQUEST'', ''4''), (''DEFAULT_CPU_LIMIT'', ''8''),
             (''DEFAULT_MEMORY_REQUEST'', ''32Gi''), (''DEFAULT_MEMORY_LIMIT'', ''64Gi''),
             (''DEFAULT_STORAGE'', ''500Gi'')]"

section \<open>Vocabulary of the properties\<close>

text \<open>
  The five reads of one \<open>checkResourceStatus\<close> in their order, and the world after a
  list of requests has been answered.
\<close>

definition status_reads :: "string \<Rightarrow> string \<Rightarrow> api_call list" where
  "status_reads ns storeName =
     [ReadNamespacedDeployment (storeName @ ''-backend'') ns,
      ReadNamespacedService (storeName @ ''-backend'') ns,
      ReadNamespacedIngress (storeName @ ''-ingress'') ns,
      ReadNamespacedStatefulSet (storeName @ ''-db'') ns,
      ReadNamespacedSecret (storeName @ ''-secrets'') ns]"

definition world_after :: "env \<Rightarrow> api_call list \<Rightarrow> world \<Rightarrow> world" where
  "world_after e cs w = fold (\<lambda>c w'. snd (api e c w')) cs w"

text \<open>The message of the error that the stub engine throws.\<close>

definition not_implemented :: string where
  "not_implemented = ''WooCommerce provisioning not yet implemented''"

text \<open>
  The hard limits of the quota that \<open>provisionStore\<close> asks for, the requests that are
  no quota request or ask for these limits, and the worlds reached from a world by
  sending such requests only.
\<close>

definition fixed_quota :: "(string \<times> string) list" where
  "fixed_quota =
     [(''requests.cpu'', ''2''), (''requests.memory'', ''4Gi''),
      (''requests.storage'', ''10Gi''), (''persistentvolumeclaims'', ''5'')]"

definition quota_fixed :: "api_call \<Rightarrow> bool" where
  "quota_fixed c = (case c of CreateNamespacedResourceQuota ns h \<Rightarrow> h = fixed_quota | _ \<Rightarrow> True)"

definition sends_fixed :: "world \<Rightarrow> world \<Rightarrow> bool" where
  "sends_fixed w w' = (\<exists>new. calls w' = calls w @ new \<and> list_all quota_fixed new)"

text \<open>
  One whole operation of the service, from any world: a create request, the detached
  provisioning task of a store, a refresh, a deletion, the reconciliation at startup.
\<close>

inductive operation :: "env \<Rightarrow> StoreOrchestrationService \<Rightarrow> StoreOrchestrationService \<Rightarrow> bool"
  for e :: env where
    op_create: "operation e svc (fst (snd (createStore e request svc w)))"
  | op_provision: "operation e svc (fst (provisioning_task e ref sn engine' svc w))"
  | op_refresh: "operation e svc (fst (snd (refreshStoreStatus e sn svc w)))"
  | op_delete: "operation e svc (fst (snd (deleteStore e sn svc w)))"
  | op_load: "operation e svc (fst (loadExistingStores e svc w))"

text \<open>
  Properties of a service: every object that is still \<open>PROVISIONING\<close> has no URL; a
  store is \<open>READY\<close> and has both URLs; every reference held by the map is allocated.
\<close>

definition provisioning_has_no_urls :: "StoreOrchestrationService \<Rightarrow> bool" where
  "provisioning_has_no_urls svc =
     (\<forall>s \<in> set (objs svc).
        status s = PROVISIONING \<longrightarrow> storefront (urls s) = None \<and> admin (urls s) = None)"

definition ready_with_urls :: "Store \<Rightarrow> bool" where
  "ready_with_urls s = (status s = READY \<and> storefront (urls s) \<noteq> None \<and> admin (urls s) \<noteq> None)"

definition refs_valid :: "StoreOrchestrationService \<Rightarrow> bool" where
  "refs_valid svc = (\<forall>(k, r) \<in> set (stores svc). r < length (objs svc))"

section \<open>Basic facts\<close>

lemma svc_acme_eq:
  "svc_acme =
     \<lparr>objs = [\<lparr>store_id = ''acme-3f2a9c1e'', name = ''acme'', engine = MEDUSA,
               status = PROVISIONING, namespace = ''store-acme-3f2a9c1e'',
               urls = \<lparr>storefront = None, admin = None\<rparr>,
               createdAt = ''2024-01-01T00:00:00.000Z'', error = None\<rparr>],
      stores = [(''acme-3f2a9c1e'', 0)],
      defaultDomain = ''.local'', ingressClass = ''nginx''\<rparr>"
  by (simp add: svc_acme_def acme_def createStore_def new_store_def register_def
      empty_service_def env_healthy_def simple_env_def world0_def uuids_def env_or_def
      sanitize_def toLowerCase_def is_lower_or_digit_def Let_def)

lemma nth_modify:
  "ref < length (objs svc) \<Longrightarrow> objs (modify ref f svc) ! ref = f (objs svc ! ref)"
  by (simp add: modify_def)

lemma nth_modify_other:
  "r \<noteq> ref \<Longrightarrow> objs (modify ref f svc) ! r = objs svc ! r"
  by (simp add: modify_def)

lemma length_modify: "length (objs (modify ref f svc)) = length (objs svc)"
  by (simp add: modify_def)

lemma stores_modify: "stores (modify ref f svc) = stores svc"
  by (simp add: modify_def)

lemma lookup_modify: "lookup (modify ref f svc) k = lookup svc k"
  by (simp add: lookup_def modify_def)

lemma namespace_mark_deleting:
  "namespace (objs (mark_deleting ref svc) ! ref) = namespace (objs svc ! ref)"
  by (cases "ref < length (objs svc)")
     (simp_all add: mark_deleting_def modify_def list_update_beyond)

lemma calls_create_ignoring:
  "calls (snd (create_ignoring code e c w)) = calls w @ [c]"
  by (simp add: create_ignoring_def api_def split: sum.splits)

section \<open>Deletion\<close>

text \<open>
  Claim C5. For a store id that is not in the registry, \<open>deleteStore\<close> throws the error
  \<open>Store not found\<close>, and leaves the service and the world as they were: the registry is
  unchanged and no request has been sent to the cluster (the list of requests is part
  of the world).
\<close>

theorem deleteStore_not_found:
  "lookup svc storeId = None \<Longrightarrow>
   deleteStore e storeId svc w = (Inl (Error ''Store not found''), svc, w)"
  by (simp add: deleteStore_def)

theorem deleteStore_not_found_witness:
  "lookup svc_acme ''ghost-00000000'' = None \<and>
   deleteStore env_down ''ghost-00000000'' svc_acme world0
     = (Inl (Error ''Store not found''), svc_acme, world0)"
  using deleteStore_not_found [of svc_acme "''ghost-00000000''" env_down world0]
  by (simp add: svc_acme_eq lookup_def)

text \<open>
  Claim C4. For a registered store id, \<open>deleteStore\<close> sends one request, the deletion
  of the store's namespace. When \<open>deleteNamespace\<close> succeeds (the cluster accepts, or
  answers 404), \<open>deleteStore\<close> succeeds and the id is no longer in the registry. When
  \<open>deleteNamespace\<close> throws, \<open>deleteStore\<close> throws the same error, and the record is
  still in the registry, with the status \<open>FAILED\<close> and the error message
  \<open>Deletion failed:\<close> followed by the message of the error.
\<close>

theorem deleteStore_registered:
  fixes e storeId svc w
  defines "res \<equiv> deleteStore e storeId svc w"
  assumes reg: "lookup svc storeId = Some ref" and ref: "ref < length (objs svc)"
  shows "calls (snd (snd res)) = calls w @ [DeleteNamespace (namespace (objs svc ! ref))]
       \<and> (deleteNamespace e (namespace (objs svc ! ref)) w = (Inr (), w') \<longrightarrow>
            fst res = Inr () \<and> snd (snd res) = w' \<and>
            lookup (fst (snd res)) storeId = None)
       \<and> (deleteNamespace e (namespace (objs svc ! ref)) w = (Inl err, w') \<longrightarrow>
            fst res = Inl err \<and> snd (snd res) = w' \<and>
            lookup (fst (snd res)) storeId = Some ref \<and>
            status (objs (fst (snd res)) ! ref) = FAILED \<and>
            error (objs (fst (snd res)) ! ref) = Some (''Deletion failed: '' @ message err))"
proof -
  let ?ns = "namespace (objs svc ! ref)"
  have res_eq: "res =
      (case deleteNamespace e ?ns w of
         (Inr _, w') \<Rightarrow> (Inr (), delete_done ref storeId (mark_deleting ref svc), w')
       | (Inl err, w') \<Rightarrow>
           (Inl err, set_failed ref (''Deletion failed: '' @ message err) (mark_deleting ref svc), w'))"
    by (simp add: res_def deleteStore_def reg namespace_mark_deleting Let_def)
  have sent: "calls (snd (snd res)) = calls w @ [DeleteNamespace ?ns]"
    using calls_create_ignoring [of 404 e "DeleteNamespace ?ns" w]
    by (auto simp add: res_eq deleteNamespace_def split: prod.splits sum.splits)
  have ok: "fst res = Inr () \<and> snd (snd res) = w' \<and> lookup (fst (snd res)) storeId = None"
    if "deleteNamespace e ?ns w = (Inr (), w')"
    using that by (simp add: res_eq delete_done_def lookup_def delete_conv')
  have ko: "fst res = Inl err \<and> snd (snd res) = w' \<and>
            lookup (fst (snd res)) storeId = Some ref \<and>
            status (objs (fst (snd res)) ! ref) = FAILED \<and>
            error (objs (fst (snd res)) ! ref) = Some (''Deletion failed: '' @ message err)"
    if "deleteNamespace e ?ns w = (Inl err, w')"
    using that reg ref
    by (simp add: res_eq set_failed_def mark_deleting_def lookup_modify nth_modify length_modify)
  from sent ok ko show ?thesis by blast
qed

theorem deleteStore_registered_witness:
  "lookup svc_acme ''acme-3f2a9c1e'' = Some 0 \<and> 0 < length (objs svc_acme)
   \<and> deleteNamespace env_healthy (namespace (objs svc_acme ! 0)) world0
        = (Inr (), world0\<lparr>calls := [DeleteNamespace ''store-acme-3f2a9c1e'']\<rparr>)
   \<and> fst (deleteStore env_healthy ''acme-3f2a9c1e'' svc_acme world0) = Inr ()
   \<and> lookup (fst (snd (deleteStore env_healthy ''acme-3f2a9c1e'' svc_acme world0)))
        ''acme-3f2a9c1e'' = None
   \<and> deleteNamespace env_down (namespace (objs svc_acme ! 0)) world0
        = (Inl (api_error 500 ''Internal Server Error''),
           world0\<lparr>calls := [DeleteNamespace ''store-acme-3f2a9c1e'']\<rparr>)
   \<and> fst (deleteStore env_down ''acme-3f2a9c1e'' svc_acme world0)
        = Inl (api_error 500 ''Internal Server Error'')
   \<and> lookup (fst (snd (deleteStore env_down ''acme-3f2a9c1e'' svc_acme world0)))
        ''acme-3f2a9c1e'' = Some 0
   \<and> status (objs (fst (snd (deleteStore env_down ''acme-3f2a9c1e'' svc_acme world0))) ! 0)
        = FAILED
   \<and> error (objs (fst (snd (deleteStore env_down ''acme-3f2a9c1e'' svc_acme world0))) ! 0)
        = Some ''Deletion failed: Internal Server Error''"
proof -
  have reg: "lookup svc_acme ''acme-3f2a9c1e'' = Some 0" and ref: "0 < length (objs svc_acme)"
    by (simp_all add: svc_acme_eq lookup_def)
  have up: "deleteNamespace env_healthy (namespace (objs svc_acme ! 0)) world0
        = (Inr (), world0\<lparr>calls := [DeleteNamespace ''store-acme-3f2a9c1e'']\<rparr>)"
    by (simp add: svc_acme_eq deleteNamespace_def create_ignoring_def api_def env_healthy_def
        simple_env_def healthy_def world0_def)
  have down: "deleteNamespace env_down (namespace (objs svc_acme ! 0)) world0
        = (Inl (api_error 500 ''Internal Server Error''),
           world0\<lparr>calls := [DeleteNamespace ''store-acme-3f2a9c1e'']\<rparr>)"
    by (simp add: svc_acme_eq deleteNamespace_def create_ignoring_def api_def env_down_def
        simple_env_def api_error_def world0_def)
  show ?thesis
    using deleteStore_registered [OF reg ref, where e = env_healthy and w = world0] up
      deleteStore_registered [OF reg ref, where e = env_down and w = world0] down reg ref
    by (simp add: api_error_def)
qed

section \<open>Creation\<close>

lemma ten_stores_length: "length (getAllStores ten_stores) = 10"
  by (simp add: ten_stores_def run_def getAllStores_def acme_def new_store_def register_def
      empty_service_def sanitize_def toLowerCase_def is_lower_or_digit_def Let_def)

lemma parseInt_10: "parseInt ''10'' = Num 10"
  by (simp add: parseInt_def js_whitespace_def digit_value_def Let_def)

text \<open>
  Claim C9. Let the ceiling \<open>parseInt(process.env.MAX_STORES_PER_USER || '10')\<close> be a
  number \<open>n\<close> (it is 10 when the variable is not set), and let the registry hold at
  least \<open>n\<close> records. Then the handler of a create request leaves the service and the
  world as they were: \<open>createStore\<close> has not run (no record is added, no UUID is drawn)
  and no request has been sent to the cluster. The answer is a rejection: 429 with the
  message of the limit for a request that passes the validation of its fields, and 400
  for one that does not.
\<close>

theorem createStore_ceiling:
  assumes ceiling: "parseInt (env_or e ''MAX_STORES_PER_USER'' ''10'') = Num n"
    and full: "n \<le> int (length (getAllStores svc))"
  shows "snd (controller_createStore e body svc w) = (svc, w)
       \<and> fst (fst (controller_createStore e body svc w)) \<in> {400, 429}
       \<and> (body_name body = Some nm \<and> nm \<noteq> [] \<and> body_engine body = Some eng \<and>
          parse_engine eng = Some en \<longrightarrow>
            fst (controller_createStore e body svc w)
              = (429, failure (''Maximum store limit reached ('' @ number_toString (Num n) @ '')'')))
       \<and> (process_env e ''MAX_STORES_PER_USER'' = None \<longrightarrow> n = 10)"
proof -
  have dflt: "n = 10" if "process_env e ''MAX_STORES_PER_USER'' = None"
    using ceiling that by (simp add: env_or_def parseInt_10)
  have eng_nonempty: "eng \<noteq> []" if "parse_engine eng = Some en"
    using that by (auto simp: parse_engine_def split: if_splits)
  show ?thesis
    using ceiling full dflt eng_nonempty
    by (auto simp: controller_createStore_def Let_def split: option.splits)
qed

theorem createStore_ceiling_witness:
  "parseInt (env_or env_healthy ''MAX_STORES_PER_USER'' ''10'') = Num 10
   \<and> (10 :: int) \<le> int (length (getAllStores ten_stores))
   \<and> process_env env_healthy ''MAX_STORES_PER_USER'' = None
   \<and> parse_engine ''medusa'' = Some MEDUSA
   \<and> controller_createStore env_healthy
        \<lparr>body_name = Some ''eleventh'', body_engine = Some ''medusa''\<rparr> ten_stores world0
       = ((429, failure ''Maximum store limit reached (10)''), ten_stores, world0)"
proof -
  have ceiling: "parseInt (env_or env_healthy ''MAX_STORES_PER_USER'' ''10'') = Num 10"
    by (simp add: env_or_def env_healthy_def simple_env_def parseInt_10)
  have full: "(10 :: int) \<le> int (length (getAllStores ten_stores))"
    by (simp add: ten_stores_length)
  have unset: "process_env env_healthy ''MAX_STORES_PER_USER'' = None"
    by (simp add: env_healthy_def simple_env_def)
  have eng: "parse_engine ''medusa'' = Some MEDUSA"
    by (simp add: parse_engine_def)
  show ?thesis
    using createStore_ceiling [OF ceiling full,
        where body = "\<lparr>body_name = Some ''eleventh'', body_engine = Some ''medusa''\<rparr>"
          and w = world0 and nm = "''eleventh''" and eng = "''medusa''" and en = MEDUSA]
      ceiling full unset eng
    by (simp add: prod_eq_iff)
qed

lemma world1_eq: "world1 = world0\<lparr>draws := 1\<rparr>"
  by (simp add: world1_def createStore_def Let_def world0_def)

lemma svc_acme_fresh:
  "createStore env_fresh acme (empty_service env_fresh) world0 = (0, svc_acme, world1)"
  by (simp add: svc_acme_eq world1_eq createStore_def acme_def new_store_def register_def
      empty_service_def env_fresh_def simple_env_def world0_def env_or_def
      sanitize_def toLowerCase_def is_lower_or_digit_def Let_def)

lemma createStore_obj:
  "objs (fst (snd (createStore e request svc w))) ! fst (createStore e request svc w)
     = new_store request (uuidv4 e (draws w)) (toISOString e (now w))"
  by (simp add: createStore_def register_def Let_def)

lemma new_store_id_neq:
  assumes "8 \<le> length u" "8 \<le> length u'" "take 8 u \<noteq> take 8 u'"
  shows "store_id (new_store request u c) \<noteq> store_id (new_store request' u' c')"
    and "namespace (new_store request u c) \<noteq> namespace (new_store request' u' c')"
proof -
  have "length (CHR ''-'' # take 8 u) = length (CHR ''-'' # take 8 u')"
    using assms by simp
  then have "sanitize (req_name request) @ CHR ''-'' # take 8 u
          \<noteq> sanitize (req_name request') @ CHR ''-'' # take 8 u'"
    using assms(3) by (auto simp: append_eq_append_conv)
  then show "store_id (new_store request u c) \<noteq> store_id (new_store request' u' c')"
    and "namespace (new_store request u c) \<noteq> namespace (new_store request' u' c')"
    by (simp_all add: new_store_def Let_def)
qed

text \<open>
  Claim C7, as the code has it. The record that \<open>createStore\<close> returns has the status
  \<open>PROVISIONING\<close> and is registered under its id. The id is the sanitized name, a
  hyphen, and the first eight characters of a UUID, so two records have distinct ids and
  distinct namespaces whenever the first eight characters of their two UUIDs differ,
  whatever the two names are.
\<close>

theorem createStore_provisioning_distinct:
  fixes e
  defines "made \<equiv> \<lambda>request svc w.
             objs (fst (snd (createStore e request svc w))) ! fst (createStore e request svc w)"
  shows "status (made request svc w) = PROVISIONING
       \<and> lookup (fst (snd (createStore e request svc w))) (store_id (made request svc w))
           = Some (fst (createStore e request svc w))
       \<and> (8 \<le> length (uuidv4 e (draws w)) \<and> 8 \<le> length (uuidv4 e (draws w')) \<and>
          take 8 (uuidv4 e (draws w)) \<noteq> take 8 (uuidv4 e (draws w')) \<longrightarrow>
            store_id (made request svc w) \<noteq> store_id (made request' svc' w') \<and>
            namespace (made request svc w) \<noteq> namespace (made request' svc' w'))"
  unfolding made_def createStore_obj
  using new_store_id_neq
  by (auto simp add: new_store_def createStore_def register_def lookup_def update_conv' Let_def)

theorem createStore_provisioning_distinct_witness:
  "8 \<le> length (uuidv4 env_fresh (draws world0))
   \<and> 8 \<le> length (uuidv4 env_fresh (draws world1))
   \<and> take 8 (uuidv4 env_fresh (draws world0)) \<noteq> take 8 (uuidv4 env_fresh (draws world1))
   \<and> createStore env_fresh acme (empty_service env_fresh) world0 = (0, svc_acme, world1)
   \<and> fst (createStore env_fresh acme svc_acme world1) = 1
   \<and> status (objs svc_acme ! 0) = PROVISIONING
   \<and> status (objs (fst (snd (createStore env_fresh acme svc_acme world1))) ! 1) = PROVISIONING
   \<and> store_id (objs svc_acme ! 0) = ''acme-3f2a9c1e''
   \<and> store_id (objs (fst (snd (createStore env_fresh acme svc_acme world1))) ! 1)
       = ''acme-7b1d04aa''
   \<and> namespace (objs svc_acme ! 0) = ''store-acme-3f2a9c1e''
   \<and> namespace (objs (fst (snd (createStore env_fresh acme svc_acme world1))) ! 1)
       = ''store-acme-7b1d04aa''"
  using createStore_provisioning_distinct
    [where e = env_fresh and request = acme and svc = "empty_service env_fresh" and w = world0
       and request' = acme and svc' = svc_acme and w' = world1]
    svc_acme_fresh
  by (simp add: svc_acme_eq world1_eq createStore_def acme_def new_store_def register_def
      empty_service_def env_or_def env_fresh_def simple_env_def world0_def
      sanitize_def toLowerCase_def is_lower_or_digit_def Let_def)

text \<open>
  Claim C7 as it is stated fails: two create requests with the same name, for which
  \<open>uuidv4()\<close> gives two different UUIDs with the same first eight characters, make two
  records with one id and one namespace, and the second takes the place of the first in
  the registry.
\<close>

theorem createStore_same_id_counterexample:
  "uuidv4 env_healthy (draws world0) \<noteq> uuidv4 env_healthy (draws world1)
   \<and> createStore env_healthy acme (empty_service env_healthy) world0 = (0, svc_acme, world1)
   \<and> fst (createStore env_healthy acme svc_acme world1) = 1
   \<and> store_id (objs (fst (snd (createStore env_healthy acme svc_acme world1))) ! 0)
       = store_id (objs (fst (snd (createStore env_healthy acme svc_acme world1))) ! 1)
   \<and> namespace (objs (fst (snd (createStore env_healthy acme svc_acme world1))) ! 0)
       = namespace (objs (fst (snd (createStore env_healthy acme svc_acme world1))) ! 1)
   \<and> length (getAllStores (fst (snd (createStore env_healthy acme svc_acme world1)))) = 1"
  by (simp add: svc_acme_eq world1_eq createStore_def acme_def new_store_def register_def
      getAllStores_def empty_service_def env_healthy_def simple_env_def world0_def uuids_def
      env_or_def sanitize_def toLowerCase_def is_lower_or_digit_def Let_def)

section \<open>Readiness polling\<close>

lemma now_api: "now w \<le> now (snd (api e c w))"
  by (simp add: api_def)

lemma now_checkResourceStatus: "now w \<le> now (snd (checkResourceStatus e ns sn w))"
  by (auto simp: checkResourceStatus_def api_def Let_def split: prod.splits sum.splits)

lemma now_sleep: "now w + ms \<le> now (sleep e ms w)"
  by (simp add: sleep_def)

lemma loop_success:
  "waitForStoreReady_loop e ns sn t start w = (Inr (), w') \<Longrightarrow> start \<le> now w \<Longrightarrow>
   \<exists>w0. start \<le> now w0 \<and> now w0 - start < t * 1000 \<and>
        snd (checkResourceStatus e ns sn w0) = w' \<and>
        resources_ready (fst (checkResourceStatus e ns sn w0))"
proof (induction e ns sn t start w rule: waitForStoreReady_loop.induct)
  case (1 e ns sn t start w)
  show ?case
  proof (cases "now w - start < t * 1000")
    case False
    with "1.prems"(1) show ?thesis
      by (simp add: waitForStoreReady_loop.simps [of e ns sn t start w])
  next
    case window: True
    obtain st w1 where poll: "checkResourceStatus e ns sn w = (st, w1)"
      by (cases "checkResourceStatus e ns sn w")
    show ?thesis
    proof (cases "resources_ready st")
      case True
      with window poll "1.prems" have "w1 = w'"
        by (simp add: waitForStoreReady_loop.simps [of e ns sn t start w])
      with window poll True "1.prems"(2) show ?thesis
        by (intro exI [of _ w]) simp
    next
      case False
      have later: "start \<le> now (sleep e 5000 w1)"
        using now_checkResourceStatus [of w e ns sn] now_sleep [of w1 5000 e] poll "1.prems"(2)
        by simp
      have "waitForStoreReady_loop e ns sn t start (sleep e 5000 w1) = (Inr (), w')"
        using window poll False "1.prems"(1)
        by (simp add: waitForStoreReady_loop.simps [of e ns sn t start w])
      with "1.IH" [OF window poll [symmetric] False] later show ?thesis
        by simp
    qed
  qed
qed

lemma loop_timeout:
  "start \<le> now w \<Longrightarrow>
   (\<And>w0. start \<le> now w0 \<Longrightarrow> now w0 - start < t * 1000 \<Longrightarrow>
      \<not> resources_ready (fst (checkResourceStatus e ns sn w0))) \<Longrightarrow>
   fst (waitForStoreReady_loop e ns sn t start w) = Inl (Error (timeout_message sn)) \<and>
   t * 1000 \<le> now (snd (waitForStoreReady_loop e ns sn t start w)) - start"
proof (induction e ns sn t start w rule: waitForStoreReady_loop.induct)
  case (1 e ns sn t start w)
  show ?case
  proof (cases "now w - start < t * 1000")
    case False
    then show ?thesis
      by (simp add: waitForStoreReady_loop.simps [of e ns sn t start w])
  next
    case window: True
    obtain st w1 where poll: "checkResourceStatus e ns sn w = (st, w1)"
      by (cases "checkResourceStatus e ns sn w")
    have not_ready: "\<not> resources_ready st"
      using "1.prems"(2) [OF "1.prems"(1) window] poll by simp
    have later: "start \<le> now (sleep e 5000 w1)"
      using now_checkResourceStatus [of w e ns sn] now_sleep [of w1 5000 e] poll "1.prems"(1)
      by simp
    have "waitForStoreReady_loop e ns sn t start w
            = waitForStoreReady_loop e ns sn t start (sleep e 5000 w1)"
      using window poll not_ready
      by (simp add: waitForStoreReady_loop.simps [of e ns sn t start w])
    with "1.IH" [OF window poll [symmetric] not_ready later "1.prems"(2)] show ?thesis
      by simp
  qed
qed

lemma loop_error_is_timeout:
  "fst (waitForStoreReady_loop e ns sn t start w) = Inl err \<Longrightarrow> err = Error (timeout_message sn)"
proof (induction e ns sn t start w rule: waitForStoreReady_loop.induct)
  case (1 e ns sn t start w)
  show ?case
  proof (cases "now w - start < t * 1000")
    case False
    with "1.prems" show ?thesis
      by (simp add: waitForStoreReady_loop.simps [of e ns sn t start w])
  next
    case window: True
    obtain st w1 where poll: "checkResourceStatus e ns sn w = (st, w1)"
      by (cases "checkResourceStatus e ns sn w")
    show ?thesis
    proof (cases "resources_ready st")
      case True
      with window poll "1.prems" show ?thesis
        by (simp add: waitForStoreReady_loop.simps [of e ns sn t start w])
    next
      case False
      with window poll "1.prems" "1.IH" [OF window poll [symmetric] False] show ?thesis
        by (simp add: waitForStoreReady_loop.simps [of e ns sn t start w])
    qed
  qed
qed


lemma and_then_Inr: "m w = (Inr x, w1) \<Longrightarrow> and_then m f w = f x w1"
  by (simp add: and_then_def)

lemma and_then_Inl: "m w = (Inl err, w1) \<Longrightarrow> and_then m f w = (Inl err, w1)"
  by (simp add: and_then_def)

lemma set_failed_obj:
  "ref < length (objs svc) \<Longrightarrow>
   status (objs (set_failed ref msg svc) ! ref) = FAILED \<and>
   error (objs (set_failed ref msg svc) ! ref) = Some msg"
  by (simp add: set_failed_def nth_modify)

lemma length_set_failed: "length (objs (set_failed ref msg svc)) = length (objs svc)"
  by (simp add: set_failed_def length_modify)

lemma provisionStore_Inl:
  assumes "lookup svc sn = Some ref"
    and "provision_steps e svc (objs svc ! ref) sn engine' w = (Inl err, w2)"
  shows "provisionStore e sn engine' svc w = (Inl err, set_failed ref (message err) svc, w2)"
    and "provisioning_task e ref sn engine' svc w
           = (set_failed ref (message err) (set_failed ref (message err) svc), w2)"
  using assms by (simp_all add: provisionStore_def provisioning_task_def)

lemma fst_and_then:
  "fst (and_then m f w) = (case fst (m w) of Inl err \<Rightarrow> Inl err | Inr x \<Rightarrow> fst (f x (snd (m w))))"
  by (simp add: and_then_def split: prod.splits sum.splits)

lemma fst_create_ignoring:
  "fst (create_ignoring code e c w) =
     (case respond e w c of
        Inl err \<Rightarrow> if response_statusCode err \<noteq> Some code then Inl err else Inr ()
      | Inr _ \<Rightarrow> Inr ())"
  by (simp add: create_ignoring_def api_def split: sum.splits)

lemma fst_generatePassword:
  "fst (generatePassword e n w) = Inr (fst (generatePassword_loop e n [] w))"
  by (simp add: generatePassword_def split: prod.splits)

lemmas client_defs =
  createNamespace_def createResourceQuota_def createSecret_def createStoreSecrets_def
  createPVC_def createService_def createStatefulSet_def createDeployment_def createIngress_def
  createPostgresDatabase_def createRedis_def provisionMedusaStore_def

lemma resources_no_ingress:
  "fst (provision_resources env_no_ingress svc store sn MEDUSA w) = Inr ()"
  by (simp add: provision_resources_def client_defs fst_and_then fst_create_ignoring
      fst_generatePassword env_no_ingress_def simple_env_def healthy_def Let_def)

lemma never_ready_no_ingress:
  "\<not> resources_ready (fst (checkResourceStatus env_no_ingress ns sn w0))"
  by (simp add: checkResourceStatus_def api_def resources_ready_def env_no_ingress_def
      simple_env_def healthy_def Let_def)

lemma poll_healthy:
  "checkResourceStatus env_healthy ns sn world0 =
     (\<lparr>deployment = True, service = True, ingress = True, database = True, secrets = True\<rparr>,
      world0\<lparr>calls := status_reads ns sn\<rparr>)"
  by (simp add: checkResourceStatus_def api_def env_healthy_def simple_env_def healthy_def
      world0_def status_reads_def Let_def)

text \<open>
  Claim C3. \<open>waitForStoreReady\<close> returns only from a poll, made inside the timeout
  window, whose single status read had all four conditions true. When no poll inside
  the window finds all four conditions true (at most three of the four hold at every
  poll), it throws the timeout error, and not before the window of \<open>timeoutSeconds\<close>
  has passed. In \<open>provisionStore\<close>, which waits with the default of 300 seconds and
  polls every 5 seconds: when the resources were created and no poll inside the window
  finds all four conditions true, \<open>provisionStore\<close> throws the timeout error and the
  record ends with the status \<open>FAILED\<close> (so not \<open>READY\<close>) and the timeout message.
\<close>

theorem readiness_polling:
  fixes e
  defines "never_ready \<equiv> \<lambda>ns sn t w.
      \<forall>w0. now w \<le> now w0 \<and> now w0 - now w < t * 1000 \<longrightarrow>
           \<not> resources_ready (fst (checkResourceStatus e ns sn w0))"
  shows "(waitForStoreReady e ns sn t w = (Inr (), w') \<longrightarrow>
            (\<exists>w0. now w \<le> now w0 \<and> now w0 - now w < t * 1000 \<and>
                  snd (checkResourceStatus e ns sn w0) = w' \<and>
                  resources_ready (fst (checkResourceStatus e ns sn w0))))
       \<and> (never_ready ns sn t w \<longrightarrow>
            fst (waitForStoreReady e ns sn t w) = Inl (Error (timeout_message sn)) \<and>
            t * 1000 \<le> now (snd (waitForStoreReady e ns sn t w)) - now w)
       \<and> (lookup svc sn = Some ref \<and> ref < length (objs svc) \<and>
          provision_resources e svc (objs svc ! ref) sn engine' w = (Inr (), w1) \<and>
          never_ready (namespace (objs svc ! ref)) sn 300 w1 \<longrightarrow>
            fst (provisionStore e sn engine' svc w) = Inl (Error (timeout_message sn)) \<and>
            status (objs (fst (provisioning_task e ref sn engine' svc w)) ! ref) = FAILED \<and>
            error (objs (fst (provisioning_task e ref sn engine' svc w)) ! ref)
              = Some (timeout_message sn))"
proof (intro conjI impI)
  assume "waitForStoreReady e ns sn t w = (Inr (), w')"
  then show "\<exists>w0. now w \<le> now w0 \<and> now w0 - now w < t * 1000 \<and>
                  snd (checkResourceStatus e ns sn w0) = w' \<and>
                  resources_ready (fst (checkResourceStatus e ns sn w0))"
    using loop_success [of e ns sn t "now w" w w'] by (simp add: waitForStoreReady_def)
next
  assume "never_ready ns sn t w"
  then have gave_up:
    "fst (waitForStoreReady e ns sn t w) = Inl (Error (timeout_message sn)) \<and>
     t * 1000 \<le> now (snd (waitForStoreReady e ns sn t w)) - now w"
    using loop_timeout [of "now w" w t e ns sn]
    by (simp add: waitForStoreReady_def never_ready_def)
  from gave_up show "fst (waitForStoreReady e ns sn t w) = Inl (Error (timeout_message sn))" ..
  from gave_up show "t * 1000 \<le> now (snd (waitForStoreReady e ns sn t w)) - now w" ..
next
  assume hyp: "lookup svc sn = Some ref \<and> ref < length (objs svc) \<and>
          provision_resources e svc (objs svc ! ref) sn engine' w = (Inr (), w1) \<and>
          never_ready (namespace (objs svc ! ref)) sn 300 w1"
  let ?ns = "namespace (objs svc ! ref)"
  have "fst (waitForStoreReady e ?ns sn 300 w1) = Inl (Error (timeout_message sn))"
    using hyp loop_timeout [of "now w1" w1 300 e ?ns sn]
    by (simp add: waitForStoreReady_def never_ready_def)
  then obtain w2 where
    "provision_steps e svc (objs svc ! ref) sn engine' w = (Inl (Error (timeout_message sn)), w2)"
    using hyp by (cases "waitForStoreReady e ?ns sn 300 w1") (simp add: provision_steps_def and_then_Inr)
  note ends = provisionStore_Inl [OF _ this]
  have msg: "message (Error (timeout_message sn)) = timeout_message sn"
    by (simp add: Error_def)
  show "fst (provisionStore e sn engine' svc w) = Inl (Error (timeout_message sn))"
    using hyp ends(1) by simp
  show "status (objs (fst (provisioning_task e ref sn engine' svc w)) ! ref) = FAILED"
    using hyp ends(2) by (simp add: msg set_failed_obj length_set_failed)
  show "error (objs (fst (provisioning_task e ref sn engine' svc w)) ! ref)
              = Some (timeout_message sn)"
    using hyp ends(2) by (simp add: msg set_failed_obj length_set_failed)
qed

theorem readiness_polling_witness:
  "waitForStoreReady env_healthy ''store-acme-3f2a9c1e'' ''acme-3f2a9c1e'' 300 world0
     = (Inr (), world0\<lparr>calls := status_reads ''store-acme-3f2a9c1e'' ''acme-3f2a9c1e''\<rparr>)
   \<and> (\<exists>w0. snd (checkResourceStatus env_healthy ''store-acme-3f2a9c1e'' ''acme-3f2a9c1e'' w0)
              = world0\<lparr>calls := status_reads ''store-acme-3f2a9c1e'' ''acme-3f2a9c1e''\<rparr>
           \<and> resources_ready
               (fst (checkResourceStatus env_healthy ''store-acme-3f2a9c1e'' ''acme-3f2a9c1e'' w0)))
   \<and> (\<forall>w0. \<not> resources_ready
              (fst (checkResourceStatus env_no_ingress ''store-acme-3f2a9c1e'' ''acme-3f2a9c1e'' w0)))
   \<and> lookup svc_acme ''acme-3f2a9c1e'' = Some 0 \<and> 0 < length (objs svc_acme)
   \<and> namespace (objs svc_acme ! 0) = ''store-acme-3f2a9c1e''
   \<and> fst (provision_resources env_no_ingress svc_acme (objs svc_acme ! 0) ''acme-3f2a9c1e''
             MEDUSA world0) = Inr ()
   \<and> fst (waitForStoreReady env_no_ingress ''store-acme-3f2a9c1e'' ''acme-3f2a9c1e'' 300 world0)
       = Inl (Error ''Timeout waiting for store acme-3f2a9c1e to be ready'')
   \<and> fst (provisionStore env_no_ingress ''acme-3f2a9c1e'' MEDUSA svc_acme world0)
       = Inl (Error ''Timeout waiting for store acme-3f2a9c1e to be ready'')
   \<and> status (objs (fst (provisioning_task env_no_ingress 0 ''acme-3f2a9c1e'' MEDUSA svc_acme
                          world0)) ! 0) = FAILED
   \<and> error (objs (fst (provisioning_task env_no_ingress 0 ''acme-3f2a9c1e'' MEDUSA svc_acme
                         world0)) ! 0)
       = Some ''Timeout waiting for store acme-3f2a9c1e to be ready''"
proof -
  let ?ns = "''store-acme-3f2a9c1e''" and ?sn = "''acme-3f2a9c1e''"
  let ?w1 = "snd (provision_resources env_no_ingress svc_acme (objs svc_acme ! 0) ?sn MEDUSA world0)"
  have ready: "waitForStoreReady env_healthy ?ns ?sn 300 world0
                 = (Inr (), world0\<lparr>calls := status_reads ?ns ?sn\<rparr>)"
    by (simp add: waitForStoreReady_def waitForStoreReady_loop.simps [of _ _ _ _ _ world0]
        poll_healthy resources_ready_def)
  have reg: "lookup svc_acme ?sn = Some 0" "0 < length (objs svc_acme)"
    "namespace (objs svc_acme ! 0) = ?ns"
    by (simp_all add: svc_acme_eq lookup_def)
  have made: "provision_resources env_no_ingress svc_acme (objs svc_acme ! 0) ?sn MEDUSA world0
                = (Inr (), ?w1)"
    using resources_no_ingress [of svc_acme "objs svc_acme ! 0" ?sn world0]
    by (simp add: prod_eq_iff)
  have msg: "timeout_message ?sn = ''Timeout waiting for store acme-3f2a9c1e to be ready''"
    by (simp add: timeout_message_def)
  show ?thesis
    using readiness_polling [where e = env_healthy and ns = ?ns and sn = ?sn and t = 300
        and w = world0 and w' = "world0\<lparr>calls := status_reads ?ns ?sn\<rparr>"]
      readiness_polling [where e = env_no_ingress and ns = ?ns and sn = ?sn and t = 300
        and w = world0 and svc = svc_acme and ref = 0 and engine' = MEDUSA and ?w1.0 = ?w1]
      ready reg made never_ready_no_ingress resources_no_ingress
    by (simp add: msg) blast
qed

section \<open>Errors of the status reads\<close>

lemma loop_first_poll_ready:
  "now w - start < t * 1000 \<Longrightarrow> resources_ready (fst (checkResourceStatus e ns sn w)) \<Longrightarrow>
   waitForStoreReady_loop e ns sn t start w = (Inr (), snd (checkResourceStatus e ns sn w))"
  by (cases "checkResourceStatus e ns sn w")
     (simp add: waitForStoreReady_loop.simps [of e ns sn t start w])

text \<open>
  Claim C10, as the code has it. \<open>checkResourceStatus\<close> does not throw: it always
  returns a status. When one of its five reads throws (\<open>fails k\<close>: the cluster answers
  the read number \<open>k\<close> of the poll with an error), the condition of that read and the
  conditions of all later reads are false in the status it returns. An error in one of
  the first four reads (deployment, service, ingress, stateful set) therefore gives a
  status that is not ready. No error of a read is propagated: the only error that
  \<open>waitForStoreReady\<close> throws is its timeout, and \<open>refreshStoreStatus\<close> of a registered
  id does not throw.
\<close>

theorem checkResourceStatus_read_errors:
  fixes e ns sn w
  defines "st \<equiv> fst (checkResourceStatus e ns sn w)"
    and "fails \<equiv> \<lambda>k. isl (respond e (world_after e (take k (status_reads ns sn)) w)
                             (status_reads ns sn ! k))"
  shows "(fails 0 \<longrightarrow> \<not> deployment st \<and> \<not> service st \<and> \<not> ingress st \<and> \<not> database st \<and> \<not> secrets st)
       \<and> (fails 1 \<longrightarrow> \<not> service st \<and> \<not> ingress st \<and> \<not> database st \<and> \<not> secrets st)
       \<and> (fails 2 \<longrightarrow> \<not> ingress st \<and> \<not> database st \<and> \<not> secrets st)
       \<and> (fails 3 \<longrightarrow> \<not> database st \<and> \<not> secrets st)
       \<and> (fails 4 \<longrightarrow> \<not> secrets st)
       \<and> (fails 0 \<or> fails 1 \<or> fails 2 \<or> fails 3 \<longrightarrow> \<not> resources_ready st)
       \<and> (fst (waitForStoreReady e ns sn t w) = Inl err \<longrightarrow> err = Error (timeout_message sn))
       \<and> (lookup svc sn = Some ref \<longrightarrow> \<not> isl (fst (refreshStoreStatus e sn svc w)))"
proof -
  have flags:
    "(fails 0 \<longrightarrow> \<not> deployment st \<and> \<not> service st \<and> \<not> ingress st \<and> \<not> database st \<and> \<not> secrets st)
       \<and> (fails 1 \<longrightarrow> \<not> service st \<and> \<not> ingress st \<and> \<not> database st \<and> \<not> secrets st)
       \<and> (fails 2 \<longrightarrow> \<not> ingress st \<and> \<not> database st \<and> \<not> secrets st)
       \<and> (fails 3 \<longrightarrow> \<not> database st \<and> \<not> secrets st)
       \<and> (fails 4 \<longrightarrow> \<not> secrets st)"
    unfolding st_def fails_def
    by (auto simp: checkResourceStatus_def api_def world_after_def status_reads_def Let_def
        split: prod.splits sum.splits)
  then have not_ready: "fails 0 \<or> fails 1 \<or> fails 2 \<or> fails 3 \<longrightarrow> \<not> resources_ready st"
    by (auto simp: resources_ready_def)
  have timeout_only: "err = Error (timeout_message sn)"
    if "fst (waitForStoreReady e ns sn t w) = Inl err"
    using that loop_error_is_timeout [of e ns sn t "now w" w err]
    by (simp add: waitForStoreReady_def)
  have refresh: "\<not> isl (fst (refreshStoreStatus e sn svc w))" if "lookup svc sn = Some ref"
    using that by (simp add: refreshStoreStatus_def split: prod.splits)
  from flags not_ready timeout_only refresh show ?thesis by blast
qed


theorem checkResourceStatus_read_errors_witness:
  "isl (respond env_no_ingress
          (world_after env_no_ingress
             (take 2 (status_reads ''store-acme-3f2a9c1e'' ''acme-3f2a9c1e'')) world0)
          (status_reads ''store-acme-3f2a9c1e'' ''acme-3f2a9c1e'' ! 2))
   \<and> fst (checkResourceStatus env_no_ingress ''store-acme-3f2a9c1e'' ''acme-3f2a9c1e'' world0)
       = \<lparr>deployment = True, service = True, ingress = False, database = False, secrets = False\<rparr>
   \<and> \<not> resources_ready
         (fst (checkResourceStatus env_no_ingress ''store-acme-3f2a9c1e'' ''acme-3f2a9c1e'' world0))
   \<and> isl (respond env_down
            (world_after env_down
               (take 0 (status_reads ''store-acme-3f2a9c1e'' ''acme-3f2a9c1e'')) world0)
            (status_reads ''store-acme-3f2a9c1e'' ''acme-3f2a9c1e'' ! 0))
   \<and> fst (checkResourceStatus env_down ''store-acme-3f2a9c1e'' ''acme-3f2a9c1e'' world0)
       = \<lparr>deployment = False, service = False, ingress = False, database = False, secrets = False\<rparr>
   \<and> fst (waitForStoreReady env_no_ingress ''store-acme-3f2a9c1e'' ''acme-3f2a9c1e'' 300 world0)
       = Inl (Error (timeout_message ''acme-3f2a9c1e''))
   \<and> lookup svc_acme ''acme-3f2a9c1e'' = Some 0
   \<and> fst (refreshStoreStatus env_no_ingress ''acme-3f2a9c1e'' svc_acme world0)
       = Inr (objs svc_acme ! 0)"
proof -
  let ?ns = "''store-acme-3f2a9c1e''" and ?sn = "''acme-3f2a9c1e''"
  have fails2: "isl (respond env_no_ingress
          (world_after env_no_ingress (take 2 (status_reads ?ns ?sn)) world0)
          (status_reads ?ns ?sn ! 2))"
    by (simp add: status_reads_def env_no_ingress_def simple_env_def)
  have fails0: "isl (respond env_down
          (world_after env_down (take 0 (status_reads ?ns ?sn)) world0)
          (status_reads ?ns ?sn ! 0))"
    by (simp add: status_reads_def env_down_def simple_env_def)
  have poll: "fst (checkResourceStatus env_no_ingress ?ns ?sn world0)
       = \<lparr>deployment = True, service = True, ingress = False, database = False, secrets = False\<rparr>"
    by (simp add: checkResourceStatus_def api_def env_no_ingress_def simple_env_def healthy_def
        Let_def)
  have poll_down: "fst (checkResourceStatus env_down ?ns ?sn world0)
       = \<lparr>deployment = False, service = False, ingress = False, database = False, secrets = False\<rparr>"
    by (simp add: checkResourceStatus_def api_def env_down_def simple_env_def Let_def)
  have gave_up: "fst (waitForStoreReady env_no_ingress ?ns ?sn 300 world0)
       = Inl (Error (timeout_message ?sn))"
    using loop_timeout [of "now world0" world0 300 env_no_ingress ?ns ?sn] never_ready_no_ingress
    by (simp add: waitForStoreReady_def)
  have reg: "lookup svc_acme ?sn = Some 0"
    by (simp add: svc_acme_eq lookup_def)
  have refreshed: "fst (refreshStoreStatus env_no_ingress ?sn svc_acme world0)
       = Inr (objs svc_acme ! 0)"
    using never_ready_no_ingress [of "namespace (objs svc_acme ! 0)" ?sn world0]
    by (auto simp add: refreshStoreStatus_def reg split: prod.splits)
  show ?thesis
    using checkResourceStatus_read_errors [where e = env_no_ingress and ns = ?ns and sn = ?sn
        and w = world0 and t = 300 and svc = svc_acme and ref = 0]
      checkResourceStatus_read_errors [where e = env_down and ns = ?ns and sn = ?sn
        and w = world0]
      fails2 fails0 poll poll_down gave_up reg refreshed
    by simp
qed

text \<open>
  Claim C10 as it is stated fails for the fifth read: when the cluster refuses the read
  of the secret, the first four conditions are true and only \<open>secrets\<close> is false, which
  the readiness test does not look at. The error happens during the poll, and the poll
  reports ready: \<open>waitForStoreReady\<close> returns and \<open>refreshStoreStatus\<close> sets \<open>READY\<close>.
\<close>

theorem secret_read_error_counterexample:
  "isl (respond env_secret_forbidden
          (world_after env_secret_forbidden
             (take 4 (status_reads ''store-acme-3f2a9c1e'' ''acme-3f2a9c1e'')) world0)
          (status_reads ''store-acme-3f2a9c1e'' ''acme-3f2a9c1e'' ! 4))
   \<and> fst (checkResourceStatus env_secret_forbidden ''store-acme-3f2a9c1e'' ''acme-3f2a9c1e'' world0)
       = \<lparr>deployment = True, service = True, ingress = True, database = True, secrets = False\<rparr>
   \<and> resources_ready
       (fst (checkResourceStatus env_secret_forbidden ''store-acme-3f2a9c1e'' ''acme-3f2a9c1e''
               world0))
   \<and> fst (waitForStoreReady env_secret_forbidden ''store-acme-3f2a9c1e'' ''acme-3f2a9c1e'' 300
             world0) = Inr ()
   \<and> status (objs svc_acme ! 0) = PROVISIONING
   \<and> status (objs (fst (snd (refreshStoreStatus env_secret_forbidden ''acme-3f2a9c1e'' svc_acme
                                 world0))) ! 0) = READY"
proof -
  let ?ns = "''store-acme-3f2a9c1e''" and ?sn = "''acme-3f2a9c1e''"
  have poll: "fst (checkResourceStatus env_secret_forbidden ?ns ?sn world0)
       = \<lparr>deployment = True, service = True, ingress = True, database = True, secrets = False\<rparr>"
    by (simp add: checkResourceStatus_def api_def env_secret_forbidden_def simple_env_def
        healthy_def Let_def)
  have fails4: "isl (respond env_secret_forbidden
          (world_after env_secret_forbidden (take 4 (status_reads ?ns ?sn)) world0)
          (status_reads ?ns ?sn ! 4))"
    by (simp add: status_reads_def env_secret_forbidden_def simple_env_def)
  have ready: "resources_ready (fst (checkResourceStatus env_secret_forbidden ?ns ?sn world0))"
    by (simp add: poll resources_ready_def)
  have waited: "fst (waitForStoreReady env_secret_forbidden ?ns ?sn 300 world0) = Inr ()"
    using ready loop_first_poll_ready [of world0 "now world0" 300 env_secret_forbidden ?ns ?sn]
    by (simp add: waitForStoreReady_def)
  have refreshed: "status (objs (fst (snd (refreshStoreStatus env_secret_forbidden ?sn svc_acme
                                 world0))) ! 0) = READY"
    using ready
    by (auto simp add: refreshStoreStatus_def lookup_def svc_acme_eq refresh_ready_def modify_def
        split: prod.splits)
  from fails4 poll ready waited refreshed show ?thesis
    by (simp add: svc_acme_eq)
qed

section \<open>The stub engine\<close>

lemma svc_shop_eq:
  "svc_shop =
     \<lparr>objs = [\<lparr>store_id = ''shop-3f2a9c1e'', name = ''shop'', engine = WOOCOMMERCE,
               status = PROVISIONING, namespace = ''store-shop-3f2a9c1e'',
               urls = \<lparr>storefront = None, admin = None\<rparr>,
               createdAt = ''2024-01-01T00:00:00.000Z'', error = None\<rparr>],
      stores = [(''shop-3f2a9c1e'', 0)],
      defaultDomain = ''.local'', ingressClass = ''nginx''\<rparr>"
  by (simp add: svc_shop_def shop_def createStore_def new_store_def register_def
      empty_service_def env_healthy_def simple_env_def world0_def uuids_def env_or_def
      sanitize_def toLowerCase_def is_lower_or_digit_def Let_def)

lemma woo_resources_fail: "isl (fst (provision_resources e svc store sn WOOCOMMERCE w))"
  by (auto simp: provision_resources_def fst_and_then provisionWooCommerceStore_def Let_def
      split: sum.splits)

lemma password16_world0:
  "generatePassword_loop env_healthy 16 [] world0 = (''abcdefghijklmnop'', world0\<lparr>draws := 16\<rparr>)"
  by code_simp

lemma generatePassword_loop_draws:
  "draws w = draws w' \<Longrightarrow>
   fst (generatePassword_loop e n pw w) = fst (generatePassword_loop e n pw w')"
  by (induction n arbitrary: pw w w') simp_all

lemma create_ignoring_calls:
  "create_ignoring code e c w = (r, w') \<Longrightarrow> calls w' = calls w @ [c]"
  by (auto simp: create_ignoring_def api_def split: sum.splits if_splits)

lemma generatePassword_loop_world:
  "snd (generatePassword_loop e n pw w) = w\<lparr>draws := draws w + n\<rparr>"
  by (induction n arbitrary: pw w) simp_all

lemma woo_steps_fail: "isl (fst (provision_steps e svc store sn WOOCOMMERCE w))"
  using woo_resources_fail [of e svc store sn w]
  by (auto simp: provision_steps_def fst_and_then split: sum.splits)

lemma message_Error: "message (Error msg) = msg"
  by (simp add: Error_def)

text \<open>
  Claim C6, as the code has it. For a registered record, provisioning with the engine
  \<open>WOOCOMMERCE\<close> always throws, and the record ends with the status \<open>FAILED\<close> and the
  message of the error that was thrown. When the creation of the namespace, of the
  resource quota and of the credentials secret succeed (the cluster accepts each, or
  answers 409), that error is \<open>WooCommerce provisioning not yet implemented\<close>, and
  the three requests have been sent to the cluster, in this order, before it; nothing
  else has been sent.
\<close>

theorem woocommerce_provisioning:
  fixes e sn svc w ref
  defines "store \<equiv> objs svc ! ref"
    and "res \<equiv> provisionStore e sn WOOCOMMERCE svc w"
    and "final \<equiv> fst (provisioning_task e ref sn WOOCOMMERCE svc w)"
  assumes reg: "lookup svc sn = Some ref" and ref: "ref < length (objs svc)"
  shows "(\<exists>err. fst res = Inl err \<and> error (objs final ! ref) = Some (message err))
       \<and> status (objs final ! ref) = FAILED
       \<and> (createNamespace e (namespace store)
             [(''store-id'', sn), (''store-engine'', ''woocommerce''), (''store-name'', name store)] w
            = (Inr (), w1) \<and>
          createResourceQuota e (namespace store) ''2'' ''4Gi'' ''10Gi'' w1 = (Inr (), w2) \<and>
          generatePassword e 16 w2 = (Inr pw, w3) \<and>
          createStoreSecrets e (namespace store) sn
             \<lparr>username = ''storeuser'', password = pw,
              db_database = hyphens_to_underscores sn\<rparr> w3 = (Inr (), w4) \<longrightarrow>
            res = (Inl (Error not_implemented), set_failed ref not_implemented svc, w4) \<and>
            error (objs final ! ref) = Some not_implemented \<and>
            calls w4 = calls w @
              [CreateNamespace (namespace store)
                 [(''app.kubernetes.io/managed-by'', ''store-platform''), (''store-id'', sn),
                  (''store-engine'', ''woocommerce''), (''store-name'', name store)],
               CreateNamespacedResourceQuota (namespace store)
                 [(''requests.cpu'', ''2''), (''requests.memory'', ''4Gi''),
                  (''requests.storage'', ''10Gi''), (''persistentvolumeclaims'', ''5'')],
               CreateNamespacedSecret (namespace store) (sn @ ''-secrets'')
                 [(''DB_USERNAME'', ''storeuser''), (''DB_PASSWORD'', pw),
                  (''DB_NAME'', hyphens_to_underscores sn)]])"
proof -
  obtain err w' where steps: "provision_steps e svc store sn WOOCOMMERCE w = (Inl err, w')"
    using woo_steps_fail [of e svc store sn w]
    by (cases "provision_steps e svc store sn WOOCOMMERCE w") (auto simp: isl_def)
  note ends = provisionStore_Inl [OF reg steps [unfolded store_def]]
  have always: "(\<exists>err. fst res = Inl err \<and> error (objs final ! ref) = Some (message err))
       \<and> status (objs final ! ref) = FAILED"
    using ends ref by (simp add: res_def final_def set_failed_obj length_set_failed)
  have created: "res = (Inl (Error not_implemented), set_failed ref not_implemented svc, w4) \<and>
            error (objs final ! ref) = Some not_implemented \<and>
            calls w4 = calls w @
              [CreateNamespace (namespace store)
                 [(''app.kubernetes.io/managed-by'', ''store-platform''), (''store-id'', sn),
                  (''store-engine'', ''woocommerce''), (''store-name'', name store)],
               CreateNamespacedResourceQuota (namespace store)
                 [(''requests.cpu'', ''2''), (''requests.memory'', ''4Gi''),
                  (''requests.storage'', ''10Gi''), (''persistentvolumeclaims'', ''5'')],
               CreateNamespacedSecret (namespace store) (sn @ ''-secrets'')
                 [(''DB_USERNAME'', ''storeuser''), (''DB_PASSWORD'', pw),
                  (''DB_NAME'', hyphens_to_underscores sn)]]"
    if ns: "createNamespace e (namespace store)
             [(''store-id'', sn), (''store-engine'', ''woocommerce''), (''store-name'', name store)] w
            = (Inr (), w1)"
      and quota: "createResourceQuota e (namespace store) ''2'' ''4Gi'' ''10Gi'' w1 = (Inr (), w2)"
      and pw: "generatePassword e 16 w2 = (Inr pw, w3)"
      and secret: "createStoreSecrets e (namespace store) sn
             \<lparr>username = ''storeuser'', password = pw,
              db_database = hyphens_to_underscores sn\<rparr> w3 = (Inr (), w4)"
  proof -
    have "provision_resources e svc store sn WOOCOMMERCE w = (Inl (Error not_implemented), w4)"
      using ns quota pw secret
      by (simp add: provision_resources_def and_then_Inr provisionWooCommerceStore_def
          not_implemented_def Let_def)
    then have "provision_steps e svc store sn WOOCOMMERCE w = (Inl (Error not_implemented), w4)"
      by (simp add: provision_steps_def and_then_Inl)
    note ends' = provisionStore_Inl [OF reg this [unfolded store_def]]
    have c1: "calls w1 = calls w @
              [CreateNamespace (namespace store)
                 [(''app.kubernetes.io/managed-by'', ''store-platform''), (''store-id'', sn),
                  (''store-engine'', ''woocommerce''), (''store-name'', name store)]]"
      using ns by (auto simp add: createNamespace_def dest!: create_ignoring_calls)
    have c2: "calls w2 = calls w1 @
              [CreateNamespacedResourceQuota (namespace store)
                 [(''requests.cpu'', ''2''), (''requests.memory'', ''4Gi''),
                  (''requests.storage'', ''10Gi''), (''persistentvolumeclaims'', ''5'')]]"
      using quota by (auto simp add: createResourceQuota_def dest!: create_ignoring_calls)
    have c3: "calls w3 = calls w2"
      using pw generatePassword_loop_world [of e 16 "[]" w2]
      by (auto simp add: generatePassword_def split: prod.splits)
    have c4: "calls w4 = calls w3 @
              [CreateNamespacedSecret (namespace store) (sn @ ''-secrets'')
                 [(''DB_USERNAME'', ''storeuser''), (''DB_PASSWORD'', pw),
                  (''DB_NAME'', hyphens_to_underscores sn)]]"
      using secret
      by (auto simp add: createStoreSecrets_def createSecret_def dest!: create_ignoring_calls)
    show ?thesis
      using ends' ref c1 c2 c3 c4
      by (simp add: res_def final_def set_failed_obj length_set_failed message_Error)
  qed
  from always created show ?thesis by blast
qed

theorem woocommerce_provisioning_witness:
  "lookup svc_shop ''shop-3f2a9c1e'' = Some 0 \<and> 0 < length (objs svc_shop)
   \<and> createNamespace env_healthy ''store-shop-3f2a9c1e''
         [(''store-id'', ''shop-3f2a9c1e''), (''store-engine'', ''woocommerce''),
          (''store-name'', ''shop'')] world0
       = (Inr (), world0\<lparr>calls :=
            [CreateNamespace ''store-shop-3f2a9c1e''
               [(''app.kubernetes.io/managed-by'', ''store-platform''),
                (''store-id'', ''shop-3f2a9c1e''), (''store-engine'', ''woocommerce''),
                (''store-name'', ''shop'')]]\<rparr>)
   \<and> fst (generatePassword_loop env_healthy 16 [] world0) = ''abcdefghijklmnop''
   \<and> fst (provisionStore env_healthy ''shop-3f2a9c1e'' WOOCOMMERCE svc_shop world0)
       = Inl (Error ''WooCommerce provisioning not yet implemented'')
   \<and> status (objs (fst (provisioning_task env_healthy 0 ''shop-3f2a9c1e'' WOOCOMMERCE svc_shop
                          world0)) ! 0) = FAILED
   \<and> error (objs (fst (provisioning_task env_healthy 0 ''shop-3f2a9c1e'' WOOCOMMERCE svc_shop
                         world0)) ! 0) = Some ''WooCommerce provisioning not yet implemented''
   \<and> calls (snd (snd (provisionStore env_healthy ''shop-3f2a9c1e'' WOOCOMMERCE svc_shop world0)))
       = [CreateNamespace ''store-shop-3f2a9c1e''
            [(''app.kubernetes.io/managed-by'', ''store-platform''),
             (''store-id'', ''shop-3f2a9c1e''), (''store-engine'', ''woocommerce''),
             (''store-name'', ''shop'')],
          CreateNamespacedResourceQuota ''store-shop-3f2a9c1e''
            [(''requests.cpu'', ''2''), (''requests.memory'', ''4Gi''),
             (''requests.storage'', ''10Gi''), (''persistentvolumeclaims'', ''5'')],
          CreateNamespacedSecret ''store-shop-3f2a9c1e'' ''shop-3f2a9c1e-secrets''
            [(''DB_USERNAME'', ''storeuser''), (''DB_PASSWORD'', ''abcdefghijklmnop''),
             (''DB_NAME'', ''shop_3f2a9c1e'')]]"
proof -
  let ?ns = "''store-shop-3f2a9c1e''" and ?sn = "''shop-3f2a9c1e''"
  let ?c1 = "CreateNamespace ?ns
               [(''app.kubernetes.io/managed-by'', ''store-platform''),
                (''store-id'', ?sn), (''store-engine'', ''woocommerce''),
                (''store-name'', ''shop'')]"
  let ?c2 = "CreateNamespacedResourceQuota ?ns
            [(''requests.cpu'', ''2''), (''requests.memory'', ''4Gi''),
             (''requests.storage'', ''10Gi''), (''persistentvolumeclaims'', ''5'')]"
  let ?c3 = "CreateNamespacedSecret ?ns ''shop-3f2a9c1e-secrets''
            [(''DB_USERNAME'', ''storeuser''), (''DB_PASSWORD'', ''abcdefghijklmnop''),
             (''DB_NAME'', ''shop_3f2a9c1e'')]"
  let ?w1 = "world0\<lparr>calls := [?c1]\<rparr>"
  let ?w2 = "world0\<lparr>calls := [?c1, ?c2]\<rparr>"
  let ?w3 = "world0\<lparr>calls := [?c1, ?c2], draws := 16\<rparr>"
  let ?w4 = "world0\<lparr>calls := [?c1, ?c2, ?c3], draws := 16\<rparr>"
  have reg: "lookup svc_shop ?sn = Some 0" and ref: "0 < length (objs svc_shop)"
    and store: "namespace (objs svc_shop ! 0) = ?ns" "name (objs svc_shop ! 0) = ''shop''"
    by (simp_all add: svc_shop_eq lookup_def)
  have ns: "createNamespace env_healthy ?ns
         [(''store-id'', ?sn), (''store-engine'', ''woocommerce''), (''store-name'', ''shop'')]
         world0 = (Inr (), ?w1)"
    by (simp add: createNamespace_def create_ignoring_def api_def env_healthy_def simple_env_def
        healthy_def world0_def)
  have quota: "createResourceQuota env_healthy ?ns ''2'' ''4Gi'' ''10Gi'' ?w1 = (Inr (), ?w2)"
    by (simp add: createResourceQuota_def create_ignoring_def api_def env_healthy_def
        simple_env_def healthy_def world0_def)
  have pw0: "fst (generatePassword_loop env_healthy 16 [] world0) = ''abcdefghijklmnop''"
    by (simp add: password16_world0)
  have "fst (generatePassword_loop env_healthy 16 [] ?w2) = ''abcdefghijklmnop''"
    using generatePassword_loop_draws [of ?w2 world0 env_healthy 16 "[]"] pw0 by simp
  moreover have "snd (generatePassword_loop env_healthy 16 [] ?w2) = ?w3"
    by (simp add: generatePassword_loop_world world0_def)
  ultimately have pw: "generatePassword env_healthy 16 ?w2 = (Inr ''abcdefghijklmnop'', ?w3)"
    by (cases "generatePassword_loop env_healthy 16 [] ?w2") (simp add: generatePassword_def)
  have secret: "createStoreSecrets env_healthy ?ns ?sn
             \<lparr>username = ''storeuser'', password = ''abcdefghijklmnop'',
              db_database = hyphens_to_underscores ?sn\<rparr> ?w3 = (Inr (), ?w4)"
    by (simp add: createStoreSecrets_def createSecret_def create_ignoring_def api_def
        env_healthy_def simple_env_def healthy_def world0_def hyphens_to_underscores_def)
  show ?thesis
    using woocommerce_provisioning [OF reg ref, where e = env_healthy and w = world0
        and ?w1.0 = ?w1 and ?w2.0 = ?w2 and ?w3.0 = ?w3 and ?w4.0 = ?w4
        and pw = "''abcdefghijklmnop''"]
      reg ref store ns quota pw pw0 secret
    by (simp add: not_implemented_def hyphens_to_underscores_def world0_def)
qed

text \<open>
  Claim C6 as it is stated fails when the cluster refuses the first request: the record
  ends \<open>FAILED\<close> with the message of the cluster's error, which does not contain
  \<open>not yet implemented\<close>, and neither the quota nor the secret has been created.
\<close>

theorem woocommerce_cluster_down_counterexample:
  "engine (objs svc_shop ! 0) = WOOCOMMERCE
   \<and> status (objs (fst (provisioning_task env_down 0 ''shop-3f2a9c1e'' WOOCOMMERCE svc_shop
                          world0)) ! 0) = FAILED
   \<and> error (objs (fst (provisioning_task env_down 0 ''shop-3f2a9c1e'' WOOCOMMERCE svc_shop
                         world0)) ! 0) = Some ''Internal Server Error''
   \<and> calls (snd (provisioning_task env_down 0 ''shop-3f2a9c1e'' WOOCOMMERCE svc_shop world0))
       = [CreateNamespace ''store-shop-3f2a9c1e''
            [(''app.kubernetes.io/managed-by'', ''store-platform''),
             (''store-id'', ''shop-3f2a9c1e''), (''store-engine'', ''woocommerce''),
             (''store-name'', ''shop'')]]"
  by (simp add: provisioning_task_def provisionStore_def provision_steps_def
      provision_resources_def and_then_def createNamespace_def create_ignoring_def api_def
      env_down_def simple_env_def api_error_def world0_def svc_shop_eq lookup_def
      set_failed_def modify_def)

section \<open>The resource quota\<close>

lemma sends_fixed_refl: "sends_fixed w w"
  by (simp add: sends_fixed_def)

lemma sends_fixed_trans: "sends_fixed w w' \<Longrightarrow> sends_fixed w' w'' \<Longrightarrow> sends_fixed w w''"
  by (auto simp: sends_fixed_def)

lemma sends_fixed_api: "quota_fixed c \<Longrightarrow> sends_fixed w (snd (api e c w))"
  by (simp add: sends_fixed_def api_def)

lemma sends_fixed_create: "quota_fixed c \<Longrightarrow> sends_fixed w (snd (create_ignoring code e c w))"
  by (auto simp: sends_fixed_def create_ignoring_def api_def split: sum.splits)

lemma sends_fixed_and_then:
  assumes "sends_fixed w (snd (m w))" and "\<And>x w1. sends_fixed w1 (snd (f x w1))"
  shows "sends_fixed w (snd (and_then m f w))"
proof (cases "m w")
  case (Pair r w1)
  then show ?thesis
    using assms(1) assms(2) [of w1] sends_fixed_trans [of w w1]
    by (cases r) (auto simp: and_then_def)
qed

lemma sends_fixed_password: "sends_fixed w (snd (generatePassword e n w))"
  using generatePassword_loop_world [of e n "[]" w]
  by (cases "generatePassword_loop e n [] w") (auto simp: generatePassword_def sends_fixed_def)

lemma sends_fixed_sleep: "sends_fixed w (sleep e ms w)"
  by (simp add: sleep_def sends_fixed_def)

lemma sends_fixed_check: "sends_fixed w (snd (checkResourceStatus e ns sn w))"
  by (auto simp: checkResourceStatus_def api_def sends_fixed_def quota_fixed_def Let_def
      split: prod.splits sum.splits)

lemma sends_fixed_loop: "sends_fixed w (snd (waitForStoreReady_loop e ns sn t start w))"
proof (induction e ns sn t start w rule: waitForStoreReady_loop.induct)
  case (1 e ns sn t start w)
  show ?case
  proof (cases "now w - start < t * 1000")
    case False
    then show ?thesis
      by (simp add: waitForStoreReady_loop.simps [of e ns sn t start w] sends_fixed_refl)
  next
    case window: True
    obtain st w1 where poll: "checkResourceStatus e ns sn w = (st, w1)"
      by (cases "checkResourceStatus e ns sn w")
    have step: "sends_fixed w w1"
      using sends_fixed_check [of w e ns sn] poll by simp
    show ?thesis
    proof (cases "resources_ready st")
      case True
      with window poll step show ?thesis
        by (simp add: waitForStoreReady_loop.simps [of e ns sn t start w])
    next
      case False
      have "sends_fixed w (sleep e 5000 w1)"
        using step sends_fixed_sleep [of w1 e 5000] by (rule sends_fixed_trans)
      with "1.IH" [OF window poll [symmetric] False] window poll False show ?thesis
        by (simp add: waitForStoreReady_loop.simps [of e ns sn t start w])
           (rule sends_fixed_trans)
    qed
  qed
qed

lemmas sends_fixed_intros =
  sends_fixed_and_then sends_fixed_create sends_fixed_password sends_fixed_refl

lemma sends_fixed_resources:
  "sends_fixed w (snd (provision_resources e svc store sn engine' w))"
  unfolding provision_resources_def client_defs createSecret_def Let_def
  by (cases engine')
     (auto intro!: sends_fixed_intros simp: quota_fixed_def fixed_quota_def
        provisionWooCommerceStore_def)

lemma sends_fixed_steps:
  "sends_fixed w (snd (provision_steps e svc store sn engine' w))"
  unfolding provision_steps_def waitForStoreReady_def
  by (intro sends_fixed_and_then sends_fixed_resources sends_fixed_loop)

lemma and_then_assoc: "and_then (and_then m f) g = and_then m (\<lambda>x. and_then (f x) g)"
  by (auto simp: and_then_def fun_eq_iff split: prod.splits sum.splits)

lemma process_env_api [simp]: "api (e\<lparr>process_env := p\<rparr>) = api e"
  by (simp add: api_def fun_eq_iff)

lemma process_env_create [simp]: "create_ignoring code (e\<lparr>process_env := p\<rparr>) = create_ignoring code e"
  by (simp add: create_ignoring_def fun_eq_iff)

lemma process_env_password_loop [simp]:
  "generatePassword_loop (e\<lparr>process_env := p\<rparr>) n pw w = generatePassword_loop e n pw w"
  by (induction n arbitrary: pw w) simp_all

lemma process_env_check [simp]:
  "checkResourceStatus (e\<lparr>process_env := p\<rparr>) ns sn w = checkResourceStatus e ns sn w"
  unfolding checkResourceStatus_def process_env_api by (rule refl)

lemma process_env_sleep [simp]: "sleep (e\<lparr>process_env := p\<rparr>) = sleep e"
  by (simp add: sleep_def fun_eq_iff)

lemma process_env_loop [simp]:
  "waitForStoreReady_loop (e\<lparr>process_env := p\<rparr>) ns sn t start w
     = waitForStoreReady_loop e ns sn t start w"
proof (induction e ns sn t start w rule: waitForStoreReady_loop.induct)
  case (1 e ns sn t start w)
  show ?case
  proof (cases "now w - start < t * 1000")
    case False
    then show ?thesis
      by (simp add: waitForStoreReady_loop.simps [of _ ns sn t start w])
  next
    case window: True
    obtain st w1 where poll: "checkResourceStatus e ns sn w = (st, w1)"
      by (cases "checkResourceStatus e ns sn w")
    show ?thesis
      using window poll "1.IH" [OF window poll [symmetric]]
      by (cases "resources_ready st")
         (simp_all add: waitForStoreReady_loop.simps [of _ ns sn t start w])
  qed
qed

lemma process_env_steps:
  "provision_steps (e\<lparr>process_env := p\<rparr>) svc store sn engine' w
     = provision_steps e svc store sn engine' w"
  unfolding provision_steps_def provision_resources_def client_defs createSecret_def
    generatePassword_def waitForStoreReady_def provisionWooCommerceStore_def Let_def
    process_env_create process_env_password_loop process_env_loop
  by (rule refl)

lemma sends_fixed_grows: "sends_fixed w w' \<Longrightarrow> \<exists>more. calls w' = calls w @ more"
  by (auto simp: sends_fixed_def)

lemma quota_sent:
  assumes ns: "createNamespace e (namespace store)
                 [(''store-id'', sn), (''store-engine'', engine_value engine'),
                  (''store-name'', name store)] w = (Inr (), w1)"
  shows "drop (length (calls w)) (calls (snd (provision_steps e svc store sn engine' w))) ! 1
           = CreateNamespacedResourceQuota (namespace store) fixed_quota"
proof -
  let ?quota = "CreateNamespacedResourceQuota (namespace store) fixed_quota"
  obtain rest where steps:
    "provision_steps e svc store sn engine' w
       = and_then (createResourceQuota e (namespace store) ''2'' ''4Gi'' ''10Gi'') (\<lambda>_. rest) w1"
    and rest: "\<And>w'. sends_fixed w' (snd (rest w'))"
  proof
    show "provision_steps e svc store sn engine' w
       = and_then (createResourceQuota e (namespace store) ''2'' ''4Gi'' ''10Gi'')
           (\<lambda>_. and_then (generatePassword e 16) (\<lambda>dbPassword.
              and_then (createStoreSecrets e (namespace store) sn
                          \<lparr>username = ''storeuser'', password = dbPassword,
                           db_database = hyphens_to_underscores sn\<rparr>) (\<lambda>_.
              and_then (case engine' of
                MEDUSA \<Rightarrow> provisionMedusaStore e svc (namespace store) sn
                          \<lparr>username = ''storeuser'', password = dbPassword,
                           db_database = hyphens_to_underscores sn\<rparr>
              | WOOCOMMERCE \<Rightarrow> provisionWooCommerceStore e (namespace store) sn
                          \<lparr>username = ''storeuser'', password = dbPassword,
                           db_database = hyphens_to_underscores sn\<rparr>) (\<lambda>_.
              waitForStoreReady e (namespace store) sn 300)))) w1"
      using and_then_Inr [of "createNamespace e (namespace store)
                 [(''store-id'', sn), (''store-engine'', engine_value engine'),
                  (''store-name'', name store)]" w "()" w1, OF ns]
      by (simp add: provision_steps_def provision_resources_def and_then_assoc Let_def)
  next
    fix w'
    show "sends_fixed w'
            (snd (and_then (generatePassword e 16) (\<lambda>dbPassword.
              and_then (createStoreSecrets e (namespace store) sn
                          \<lparr>username = ''storeuser'', password = dbPassword,
                           db_database = hyphens_to_underscores sn\<rparr>) (\<lambda>_.
              and_then (case engine' of
                MEDUSA \<Rightarrow> provisionMedusaStore e svc (namespace store) sn
                          \<lparr>username = ''storeuser'', password = dbPassword,
                           db_database = hyphens_to_underscores sn\<rparr>
              | WOOCOMMERCE \<Rightarrow> provisionWooCommerceStore e (namespace store) sn
                          \<lparr>username = ''storeuser'', password = dbPassword,
                           db_database = hyphens_to_underscores sn\<rparr>) (\<lambda>_.
              waitForStoreReady e (namespace store) sn 300))) w'))"
      unfolding client_defs createSecret_def waitForStoreReady_def
      by (cases engine')
         (auto intro!: sends_fixed_intros sends_fixed_loop simp: quota_fixed_def
            provisionWooCommerceStore_def)
  qed
  have c1: "calls w1 = calls w @ [CreateNamespace (namespace store)
              (fold (\<lambda>(k, v). AList.update k v)
                 [(''store-id'', sn), (''store-engine'', engine_value engine'),
                  (''store-name'', name store)]
                 [(''app.kubernetes.io/managed-by'', ''store-platform'')])]"
    using ns unfolding createNamespace_def by (rule create_ignoring_calls)
  obtain r w2 where q: "createResourceQuota e (namespace store) ''2'' ''4Gi'' ''10Gi'' w1 = (r, w2)"
    by (cases "createResourceQuota e (namespace store) ''2'' ''4Gi'' ''10Gi'' w1")
  have c2: "calls w2 = calls w1 @ [?quota]"
    using q unfolding createResourceQuota_def fixed_quota_def by (rule create_ignoring_calls)
  have "\<exists>more. calls (snd (provision_steps e svc store sn engine' w)) = calls w2 @ more"
  proof (cases r)
    case (Inl err)
    with q steps show ?thesis by (simp add: and_then_Inl)
  next
    case (Inr u)
    with q steps rest [of w2] show ?thesis
      by (simp add: and_then_Inr sends_fixed_grows)
  qed
  then show ?thesis
    using c1 c2 by (auto simp: nth_append)
qed

lemma process_env_provisionStore:
  "provisionStore (e\<lparr>process_env := p\<rparr>) sn engine' svc w = provisionStore e sn engine' svc w"
  unfolding provisionStore_def process_env_steps by (rule refl)

lemma sends_fixed_provisionStore:
  "sends_fixed w (snd (snd (provisionStore e sn engine' svc w)))"
proof (cases "lookup svc sn")
  case None
  then show ?thesis
    by (simp add: provisionStore_def sends_fixed_refl)
next
  case (Some ref)
  obtain r w' where steps: "provision_steps e svc (objs svc ! ref) sn engine' w = (r, w')"
    by (cases "provision_steps e svc (objs svc ! ref) sn engine' w")
  then have "sends_fixed w w'"
    using sends_fixed_steps [of w e svc "objs svc ! ref" sn engine'] by simp
  with Some steps show ?thesis
    by (cases r) (simp_all add: provisionStore_def)
qed

text \<open>
  Claim C8. \<open>provisionStore\<close> does the same whatever the process environment holds:
  the quota record computed from \<open>DEFAULT_CPU_REQUEST\<close>, \<open>DEFAULT_CPU_LIMIT\<close>,
  \<open>DEFAULT_MEMORY_REQUEST\<close>, \<open>DEFAULT_MEMORY_LIMIT\<close> and \<open>DEFAULT_STORAGE\<close> is passed to
  no call. Every quota request it sends asks for the fixed limits (cpu 2, memory 4Gi,
  storage 10Gi), and when the namespace has been created, the request sent next is the
  quota request for the store's namespace with these limits. This holds for both
  engines, so for every MEDUSA run.
\<close>

theorem quota_is_fixed:
  fixes e sn engine' svc w
  defines "res \<equiv> provisionStore e sn engine' svc w"
    and "sent \<equiv> drop (length (calls w)) (calls (snd (snd (provisionStore e sn engine' svc w))))"
  shows "provisionStore (e\<lparr>process_env := p\<rparr>) sn engine' svc w = res
       \<and> (\<forall>ns h. CreateNamespacedResourceQuota ns h \<in> set sent \<longrightarrow> h = fixed_quota)
       \<and> (lookup svc sn = Some ref \<and>
          createNamespace e (namespace (objs svc ! ref))
            [(''store-id'', sn), (''store-engine'', engine_value engine'),
             (''store-name'', name (objs svc ! ref))] w = (Inr (), w1) \<longrightarrow>
            sent ! 1 = CreateNamespacedResourceQuota (namespace (objs svc ! ref)) fixed_quota)"
proof (intro conjI allI impI)
  show "provisionStore (e\<lparr>process_env := p\<rparr>) sn engine' svc w = res"
    by (simp add: res_def process_env_provisionStore)
next
  fix ns h
  assume "CreateNamespacedResourceQuota ns h \<in> set sent"
  moreover have "list_all quota_fixed sent"
    using sends_fixed_provisionStore [of w e sn engine' svc]
    by (auto simp: sends_fixed_def sent_def res_def)
  ultimately have "quota_fixed (CreateNamespacedResourceQuota ns h)"
    by (simp add: list_all_iff)
  then show "h = fixed_quota"
    by (simp add: quota_fixed_def)
next
  assume hyp: "lookup svc sn = Some ref \<and>
          createNamespace e (namespace (objs svc ! ref))
            [(''store-id'', sn), (''store-engine'', engine_value engine'),
             (''store-name'', name (objs svc ! ref))] w = (Inr (), w1)"
  then have "snd (snd res) = snd (provision_steps e svc (objs svc ! ref) sn engine' w)"
    by (auto simp: res_def provisionStore_def split: prod.splits sum.splits)
  with hyp quota_sent [of e "objs svc ! ref" sn engine' w w1 svc]
  show "sent ! 1 = CreateNamespacedResourceQuota (namespace (objs svc ! ref)) fixed_quota"
    by (simp add: sent_def res_def)
qed

theorem quota_is_fixed_witness:
  "env_or (env_healthy\<lparr>process_env := big_quota\<rparr>) ''DEFAULT_CPU_LIMIT'' ''500m'' = ''8''
   \<and> env_or (env_healthy\<lparr>process_env := big_quota\<rparr>) ''DEFAULT_MEMORY_LIMIT'' ''1Gi'' = ''64Gi''
   \<and> env_or (env_healthy\<lparr>process_env := big_quota\<rparr>) ''DEFAULT_STORAGE'' ''5Gi'' = ''500Gi''
   \<and> lookup svc_acme ''acme-3f2a9c1e'' = Some 0
   \<and> fst (createNamespace (env_healthy\<lparr>process_env := big_quota\<rparr>) ''store-acme-3f2a9c1e''
            [(''store-id'', ''acme-3f2a9c1e''), (''store-engine'', ''medusa''),
             (''store-name'', ''acme'')] world0) = Inr ()
   \<and> provisionStore (env_healthy\<lparr>process_env := big_quota\<rparr>) ''acme-3f2a9c1e'' MEDUSA svc_acme
        world0
       = provisionStore env_healthy ''acme-3f2a9c1e'' MEDUSA svc_acme world0
   \<and> CreateNamespacedResourceQuota ''store-acme-3f2a9c1e''
        [(''requests.cpu'', ''2''), (''requests.memory'', ''4Gi''),
         (''requests.storage'', ''10Gi''), (''persistentvolumeclaims'', ''5'')]
       = calls (snd (snd (provisionStore (env_healthy\<lparr>process_env := big_quota\<rparr>)
                            ''acme-3f2a9c1e'' MEDUSA svc_acme world0))) ! 1"
proof -
  let ?e = "env_healthy\<lparr>process_env := big_quota\<rparr>"
  let ?labels = "[(''store-id'', ''acme-3f2a9c1e''), (''store-engine'', ''medusa''),
             (''store-name'', ''acme'')]"
  have vars: "env_or ?e ''DEFAULT_CPU_LIMIT'' ''500m'' = ''8''"
    "env_or ?e ''DEFAULT_MEMORY_LIMIT'' ''1Gi'' = ''64Gi''"
    "env_or ?e ''DEFAULT_STORAGE'' ''5Gi'' = ''500Gi''"
    by (simp_all add: env_or_def big_quota_def)
  have reg: "lookup svc_acme ''acme-3f2a9c1e'' = Some 0"
    and store: "namespace (objs svc_acme ! 0) = ''store-acme-3f2a9c1e''"
      "name (objs svc_acme ! 0) = ''acme''"
    by (simp_all add: svc_acme_eq lookup_def)
  have ns: "fst (createNamespace ?e ''store-acme-3f2a9c1e'' ?labels world0) = Inr ()"
    by (simp add: createNamespace_def fst_create_ignoring env_healthy_def simple_env_def
        healthy_def)
  then have ns': "createNamespace ?e ''store-acme-3f2a9c1e'' ?labels world0
                    = (Inr (), snd (createNamespace ?e ''store-acme-3f2a9c1e'' ?labels world0))"
    by (simp add: prod_eq_iff)
  show ?thesis
    using quota_is_fixed [where e = env_healthy and p = big_quota and sn = "''acme-3f2a9c1e''"
        and engine' = MEDUSA and svc = svc_acme and w = world0]
      quota_is_fixed [where e = ?e and sn = "''acme-3f2a9c1e''"
        and engine' = MEDUSA and svc = svc_acme and w = world0 and ref = 0
        and ?w1.0 = "snd (createNamespace ?e ''store-acme-3f2a9c1e'' ?labels world0)"]
      vars reg store ns ns'
    by (simp add: fixed_quota_def world0_def)
qed

section \<open>Status and URLs over the life of a record\<close>

lemma run_append: "run (evs @ evs') svc = run evs' (run evs svc)"
  by (simp add: run_def)

lemma run_Nil: "run [] svc = svc"
  by (simp add: run_def)

lemma run_Cons: "run (ev # evs) svc = run evs (step ev svc)"
  by (simp add: run_def)

lemma createStore_event:
  "fst (snd (createStore e request svc w))
     = run [Create request (uuidv4 e (draws w)) (toISOString e (now w))] svc"
  by (simp add: createStore_def run_def Let_def)

lemma provisioning_task_events: "\<exists>evs. fst (provisioning_task e ref sn engine' svc w) = run evs svc"
proof (cases "lookup svc sn")
  case None
  then have "fst (provisioning_task e ref sn engine' svc w)
               = run [Failed ref (message (Error ''Store not found''))] svc"
    by (simp add: provisioning_task_def provisionStore_def run_def)
  then show ?thesis ..
next
  case (Some r)
  obtain res w' where steps: "provision_steps e svc (objs svc ! r) sn engine' w = (res, w')"
    by (cases "provision_steps e svc (objs svc ! r) sn engine' w")
  show ?thesis
  proof (cases res)
    case (Inl err)
    with Some steps have "fst (provisioning_task e ref sn engine' svc w)
               = run [Failed r (message err), Failed ref (message err)] svc"
      by (simp add: provisioning_task_def provisionStore_def run_def)
    then show ?thesis ..
  next
    case (Inr u)
    with Some steps have "fst (provisioning_task e ref sn engine' svc w)
               = run [ProvisionReady sn r] svc"
      by (simp add: provisioning_task_def provisionStore_def run_def)
    then show ?thesis ..
  qed
qed

lemma refreshStoreStatus_events:
  "\<exists>evs. fst (snd (refreshStoreStatus e sn svc w)) = run evs svc"
proof (cases "lookup svc sn")
  case None
  then have "fst (snd (refreshStoreStatus e sn svc w)) = run [] svc"
    by (simp add: refreshStoreStatus_def run_def)
  then show ?thesis ..
next
  case (Some r)
  have "fst (snd (refreshStoreStatus e sn svc w)) = run [] svc
      \<or> fst (snd (refreshStoreStatus e sn svc w)) = run [RefreshReady r] svc"
    using Some by (auto simp: refreshStoreStatus_def run_def split: prod.splits)
  then show ?thesis by blast
qed

lemma deleteStore_events: "\<exists>evs. fst (snd (deleteStore e sn svc w)) = run evs svc"
proof (cases "lookup svc sn")
  case None
  then have "fst (snd (deleteStore e sn svc w)) = run [] svc"
    by (simp add: deleteStore_def run_def)
  then show ?thesis ..
next
  case (Some r)
  obtain res w' where del: "deleteNamespace e (namespace (objs (mark_deleting r svc) ! r)) w = (res, w')"
    by (cases "deleteNamespace e (namespace (objs (mark_deleting r svc) ! r)) w")
  show ?thesis
  proof (cases res)
    case (Inl err)
    with Some del have "fst (snd (deleteStore e sn svc w))
        = run [DeleteMark sn, Failed r (''Deletion failed: '' @ message err)] svc"
      by (simp add: deleteStore_def run_def Let_def)
    then show ?thesis ..
  next
    case (Inr u)
    with Some del have "fst (snd (deleteStore e sn svc w)) = run [DeleteMark sn, DeleteDone r sn] svc"
      by (simp add: deleteStore_def run_def Let_def stores_modify mark_deleting_def delete_done_def)
    then show ?thesis ..
  qed
qed

lemma loadExistingStores_event:
  "fst (loadExistingStores e svc w)
     = run [LoadExisting (fst (getStoreNamespaces e w))
              (toISOString e (now (snd (getStoreNamespaces e w))))] svc"
  by (simp add: loadExistingStores_def run_def split: prod.splits)

lemma operation_events: "operation e svc svc' \<Longrightarrow> \<exists>evs. svc' = run evs svc"
proof (induction rule: operation.induct)
  case (op_create svc request w)
  show ?case using createStore_event by blast
next
  case (op_provision svc ref sn engine' w)
  show ?case by (rule provisioning_task_events)
next
  case (op_refresh svc sn w)
  show ?case by (rule refreshStoreStatus_events)
next
  case (op_delete svc sn w)
  show ?case by (rule deleteStore_events)
next
  case (op_load svc w)
  show ?case using loadExistingStores_event by blast
qed

lemma operations_events: "(operation e)\<^sup>*\<^sup>* svc svc' \<Longrightarrow> \<exists>evs. svc' = run evs svc"
proof (induction rule: rtranclp_induct)
  case base
  have "svc = run [] svc" by (simp add: run_def)
  then show ?case ..
next
  case (step svc1 svc2)
  then obtain evs evs' where "svc1 = run evs svc" "svc2 = run evs' svc1"
    using operation_events by blast
  then have "svc2 = run (evs @ evs') svc" by (simp add: run_append)
  then show ?case ..
qed

lemma no_urls_modify:
  assumes "provisioning_has_no_urls svc" and "\<And>s. status (f s) \<noteq> PROVISIONING"
  shows "provisioning_has_no_urls (modify ref f svc)"
proof -
  have "set ((objs svc)[ref := f (objs svc ! ref)]) \<subseteq> insert (f (objs svc ! ref)) (set (objs svc))"
    by (rule set_update_subset_insert)
  with assms show ?thesis
    by (auto simp: provisioning_has_no_urls_def modify_def)
qed

lemma no_urls_register:
  assumes "provisioning_has_no_urls svc"
    and "status s = PROVISIONING \<longrightarrow> storefront (urls s) = None \<and> admin (urls s) = None"
  shows "provisioning_has_no_urls (register s svc)"
  using assms by (auto simp: provisioning_has_no_urls_def register_def)

lemma no_urls_stores:
  "provisioning_has_no_urls (svc\<lparr>stores := m\<rparr>) = provisioning_has_no_urls svc"
  by (simp add: provisioning_has_no_urls_def)

lemma no_urls_load:
  "provisioning_has_no_urls svc \<Longrightarrow> provisioning_has_no_urls (load_namespace created ns svc)"
  by (simp add: load_namespace_def no_urls_register Let_def)

lemma no_urls_loads:
  "provisioning_has_no_urls svc \<Longrightarrow>
   provisioning_has_no_urls (fold (load_namespace created) nss svc)"
  by (induction nss arbitrary: svc) (simp_all add: no_urls_load)

lemma no_urls_step:
  "provisioning_has_no_urls svc \<Longrightarrow> provisioning_has_no_urls (step ev svc)"
proof (cases ev)
  case (Create request uuid created)
  assume "provisioning_has_no_urls svc"
  then show ?thesis
    by (simp add: Create no_urls_register new_store_def Let_def)
next
  case (DeleteMark sn)
  assume "provisioning_has_no_urls svc"
  then show ?thesis
    by (cases "lookup svc sn") (simp_all add: DeleteMark mark_deleting_def no_urls_modify)
next
  case (LoadExisting nss created)
  assume "provisioning_has_no_urls svc"
  then show ?thesis
    by (simp add: LoadExisting no_urls_loads)
qed (simp_all add: set_ready_def set_failed_def refresh_ready_def delete_done_def
       no_urls_modify no_urls_stores)

lemma no_urls_run:
  "provisioning_has_no_urls svc \<Longrightarrow> provisioning_has_no_urls (run evs svc)"
  by (induction evs arbitrary: svc) (simp_all add: run_Nil run_Cons no_urls_step)

lemma no_urls_empty: "provisioning_has_no_urls (empty_service e)"
  by (simp add: provisioning_has_no_urls_def empty_service_def)

lemma set_ready_obj:
  "ref < length (objs svc) \<Longrightarrow>
   status (objs (set_ready sn ref svc) ! ref) = READY \<and>
   storefront (urls (objs (set_ready sn ref svc) ! ref)) = Some (''http://'' @ sn @ defaultDomain svc) \<and>
   admin (urls (objs (set_ready sn ref svc) ! ref))
     = Some (''http://'' @ sn @ ''-admin'' @ defaultDomain svc)"
  by (simp add: set_ready_def nth_modify)

lemma load_namespace_new:
  "list_all ready_with_urls (drop (length (objs svc)) (objs (load_namespace created ns svc)))
   \<and> length (objs svc) \<le> length (objs (load_namespace created ns svc))
   \<and> take (length (objs svc)) (objs (load_namespace created ns svc)) = objs svc"
  by (simp add: load_namespace_def register_def ready_with_urls_def Let_def)

lemma loads_new:
  "list_all ready_with_urls (drop (length (objs svc)) (objs (fold (load_namespace created) nss svc)))
   \<and> length (objs svc) \<le> length (objs (fold (load_namespace created) nss svc))
   \<and> take (length (objs svc)) (objs (fold (load_namespace created) nss svc)) = objs svc"
proof (induction nss arbitrary: svc)
  case Nil
  show ?case by simp
next
  case (Cons ns nss)
  let ?svc1 = "load_namespace created ns svc"
  let ?svc2 = "fold (load_namespace created) nss ?svc1"
  note one = load_namespace_new [of svc created ns] and more = Cons.IH [of ?svc1]
  obtain new1 where new1: "objs ?svc1 = objs svc @ new1" "list_all ready_with_urls new1"
    using one by (metis append_take_drop_id)
  obtain new2 where new2: "objs ?svc2 = objs ?svc1 @ new2" "list_all ready_with_urls new2"
    using more by (metis append_take_drop_id)
  from new1 new2 show ?case by simp
qed

lemma set_update_subset: "set (AList.update k v al) \<subseteq> insert (k, v) (set al)"
  by (induction al) auto

lemma set_delete_subset: "set (AList.delete k al) \<subseteq> set al"
  by (auto simp: AList.delete_eq)

lemma refs_valid_modify: "refs_valid svc \<Longrightarrow> refs_valid (modify ref f svc)"
  by (simp add: refs_valid_def modify_def)

lemma refs_valid_register: "refs_valid svc \<Longrightarrow> refs_valid (register s svc)"
  using set_update_subset [of "store_id s" "length (objs svc)" "stores svc"]
  by (fastforce simp: refs_valid_def register_def)

lemma refs_valid_delete:
  "refs_valid svc \<Longrightarrow> refs_valid (svc\<lparr>stores := AList.delete k (stores svc)\<rparr>)"
  using set_delete_subset [of k "stores svc"]
  by (fastforce simp: refs_valid_def)

lemma refs_valid_loads:
  "refs_valid svc \<Longrightarrow> refs_valid (fold (load_namespace created) nss svc)"
  by (induction nss arbitrary: svc) (simp_all add: load_namespace_def refs_valid_register Let_def)

lemma refs_valid_step: "refs_valid svc \<Longrightarrow> refs_valid (step ev svc)"
proof (cases ev)
  case (DeleteMark sn)
  assume "refs_valid svc"
  then show ?thesis
    by (cases "lookup svc sn") (simp_all add: DeleteMark mark_deleting_def refs_valid_modify)
next
  case (DeleteDone ref sn)
  assume "refs_valid svc"
  then have "refs_valid (modify ref (\<lambda>s. s\<lparr>status := DELETED\<rparr>) svc)"
    by (rule refs_valid_modify)
  then show ?thesis
    using refs_valid_delete [of "modify ref (\<lambda>s. s\<lparr>status := DELETED\<rparr>) svc" sn]
    by (simp add: DeleteDone delete_done_def stores_modify)
qed (simp_all add: set_ready_def set_failed_def refresh_ready_def refs_valid_modify
       refs_valid_register refs_valid_loads)

lemma refs_valid_run: "refs_valid svc \<Longrightarrow> refs_valid (run evs svc)"
  by (induction evs arbitrary: svc) (simp_all add: run_Nil run_Cons refs_valid_step)

lemma refs_valid_empty: "refs_valid (empty_service e)"
  by (simp add: refs_valid_def empty_service_def)

lemma getAllStores_objs: "refs_valid svc \<Longrightarrow> set (getAllStores svc) \<subseteq> set (objs svc)"
  by (auto simp: refs_valid_def getAllStores_def)

lemma lookup_valid: "refs_valid svc \<Longrightarrow> lookup svc sn = Some ref \<Longrightarrow> ref < length (objs svc)"
  by (auto simp: refs_valid_def lookup_def dest: map_of_SomeD)

lemma resources_healthy:
  "fst (provision_resources env_healthy svc store sn MEDUSA w) = Inr ()"
  by (simp add: provision_resources_def client_defs fst_and_then fst_create_ignoring
      fst_generatePassword env_healthy_def simple_env_def healthy_def Let_def)

lemma ready_healthy: "resources_ready (fst (checkResourceStatus env_healthy ns sn w))"
  by (simp add: checkResourceStatus_def api_def resources_ready_def env_healthy_def
      simple_env_def healthy_def Let_def)

lemma steps_healthy: "fst (provision_steps env_healthy svc store sn MEDUSA w) = Inr ()"
  using loop_first_poll_ready [OF _ ready_healthy, of w' "now w'" 300 for w']
  by (simp add: provision_steps_def fst_and_then resources_healthy waitForStoreReady_def)

lemma provisionStore_healthy:
  "lookup svc sn = Some ref \<Longrightarrow>
   fst (provisionStore env_healthy sn MEDUSA svc w) = Inr () \<and>
   fst (snd (provisionStore env_healthy sn MEDUSA svc w)) = set_ready sn ref svc \<and>
   fst (provisioning_task env_healthy ref' sn MEDUSA svc w) = set_ready sn ref svc"
  using steps_healthy [of svc "objs svc ! ref" sn w]
  by (cases "provision_steps env_healthy svc (objs svc ! ref) sn MEDUSA w")
     (simp add: provisionStore_def provisioning_task_def)

lemma urls_modify:
  assumes "\<And>s. urls (f s) = urls s"
  shows "urls (objs (modify r f svc) ! ref) = urls (objs svc ! ref)"
proof (cases "r = ref \<and> ref < length (objs svc)")
  case True
  with assms show ?thesis by (simp add: modify_def)
next
  case False
  then show ?thesis
    by (cases "r = ref") (simp_all add: modify_def list_update_beyond)
qed

lemma deleteStore_keeps_urls:
  "urls (objs (fst (snd (deleteStore e sn svc w))) ! ref) = urls (objs svc ! ref)"
proof (cases "lookup svc sn")
  case None
  then show ?thesis by (simp add: deleteStore_def)
next
  case (Some r)
  obtain res w' where del: "deleteNamespace e (namespace (objs (mark_deleting r svc) ! r)) w = (res, w')"
    by (cases "deleteNamespace e (namespace (objs (mark_deleting r svc) ! r)) w")
  show ?thesis
    using Some del
    by (cases res)
       (simp_all add: deleteStore_def Let_def delete_done_def set_failed_def mark_deleting_def
          urls_modify)
qed

lemma svc_acme_reachable: "(operation env_healthy)\<^sup>*\<^sup>* (empty_service env_healthy) svc_acme"
  unfolding svc_acme_def by (rule r_into_rtranclp) (rule op_create)

text \<open>
  Claim C1, as the code has it. After any sequence of operations (create, provisioning,
  refresh, delete, startup reconciliation) from the empty service, and after any
  sequence of their blocks in any interleaving, a record of the registry whose status is
  \<open>PROVISIONING\<close> has no URL: the URLs are empty until the record leaves
  \<open>PROVISIONING\<close>. When \<open>provisionStore\<close> completes for a registered record, the
  record is \<open>READY\<close> and has both URLs, and so has every record of the registry after
  the startup reconciliation. \<open>deleteStore\<close> leaves the URLs of every record as they
  were.
\<close>

theorem urls_until_ready:
  "((operation e)\<^sup>*\<^sup>* (empty_service e) svc \<and> s \<in> set (getAllStores svc) \<and>
      status s = PROVISIONING \<longrightarrow> storefront (urls s) = None \<and> admin (urls s) = None)
   \<and> (s' \<in> set (getAllStores (run evs (empty_service e))) \<and> status s' = PROVISIONING \<longrightarrow>
        storefront (urls s') = None \<and> admin (urls s') = None)
   \<and> (lookup svc' sn = Some ref \<and> ref < length (objs svc') \<and>
      fst (provisionStore e sn engine' svc' w) = Inr () \<longrightarrow>
        ready_with_urls (objs (fst (snd (provisionStore e sn engine' svc' w))) ! ref))
   \<and> list_all ready_with_urls (getAllStores (fst (new_StoreOrchestrationService e w)))
   \<and> urls (objs (fst (snd (deleteStore e sn svc' w))) ! ref) = urls (objs svc' ! ref)"
proof (intro conjI impI)
  show "urls (objs (fst (snd (deleteStore e sn svc' w))) ! ref) = urls (objs svc' ! ref)"
    by (rule deleteStore_keeps_urls)
  have events: "storefront (urls s) = None \<and> admin (urls s) = None"
    if "s \<in> set (getAllStores (run evs (empty_service e)))" "status s = PROVISIONING" for s evs
  proof -
    have "s \<in> set (objs (run evs (empty_service e)))"
      using that(1) getAllStores_objs [OF refs_valid_run [OF refs_valid_empty]] by blast
    with that(2) no_urls_run [OF no_urls_empty, of evs e] show ?thesis
      by (simp add: provisioning_has_no_urls_def)
  qed
  {
    assume "s' \<in> set (getAllStores (run evs (empty_service e))) \<and> status s' = PROVISIONING"
    with events [of s' evs] show "storefront (urls s') = None" and "admin (urls s') = None"
      by simp_all
  }
  {
    assume hyp: "(operation e)\<^sup>*\<^sup>* (empty_service e) svc \<and> s \<in> set (getAllStores svc) \<and>
      status s = PROVISIONING"
    then obtain evs' where "svc = run evs' (empty_service e)"
      using operations_events by blast
    with hyp events [of s evs'] show "storefront (urls s) = None" and "admin (urls s) = None"
      by simp_all
  }
  {
    assume hyp: "lookup svc' sn = Some ref \<and> ref < length (objs svc') \<and>
      fst (provisionStore e sn engine' svc' w) = Inr ()"
    then have "fst (snd (provisionStore e sn engine' svc' w)) = set_ready sn ref svc'"
      by (auto simp: provisionStore_def split: prod.splits sum.splits)
    with hyp set_ready_obj [of ref svc' sn]
    show "ready_with_urls (objs (fst (snd (provisionStore e sn engine' svc' w))) ! ref)"
      by (simp add: ready_with_urls_def)
  }
  show "list_all ready_with_urls (getAllStores (fst (new_StoreOrchestrationService e w)))"
  proof -
    let ?svc = "fst (new_StoreOrchestrationService e w)"
    have eq: "?svc = fold (load_namespace (toISOString e (now (snd (getStoreNamespaces e w)))))
                       (fst (getStoreNamespaces e w)) (empty_service e)"
      by (simp add: new_StoreOrchestrationService_def loadExistingStores_def split: prod.splits)
    have "list_all ready_with_urls (objs ?svc)"
      using loads_new [of "empty_service e"] unfolding eq by (simp add: empty_service_def)
    moreover have "set (getAllStores ?svc) \<subseteq> set (objs ?svc)"
      unfolding eq by (intro getAllStores_objs refs_valid_loads refs_valid_empty)
    ultimately show ?thesis
      by (auto simp: list_all_iff)
  qed
qed

theorem urls_until_ready_witness:
  "(operation env_healthy)\<^sup>*\<^sup>* (empty_service env_healthy) svc_acme
   \<and> objs svc_acme ! 0 \<in> set (getAllStores svc_acme)
   \<and> status (objs svc_acme ! 0) = PROVISIONING
   \<and> storefront (urls (objs svc_acme ! 0)) = None \<and> admin (urls (objs svc_acme ! 0)) = None
   \<and> lookup svc_acme ''acme-3f2a9c1e'' = Some 0 \<and> 0 < length (objs svc_acme)
   \<and> fst (provisionStore env_healthy ''acme-3f2a9c1e'' MEDUSA svc_acme world0) = Inr ()
   \<and> ready_with_urls
       (objs (fst (snd (provisionStore env_healthy ''acme-3f2a9c1e'' MEDUSA svc_acme world0))) ! 0)
   \<and> urls (objs (fst (snd (provisionStore env_healthy ''acme-3f2a9c1e'' MEDUSA svc_acme world0)))
            ! 0)
       = \<lparr>storefront = Some ''http://acme-3f2a9c1e.local'',
          admin = Some ''http://acme-3f2a9c1e-admin.local''\<rparr>"
proof -
  let ?sn = "''acme-3f2a9c1e''"
  have reg: "lookup svc_acme ?sn = Some 0" "0 < length (objs svc_acme)"
    "objs svc_acme ! 0 \<in> set (getAllStores svc_acme)" "status (objs svc_acme ! 0) = PROVISIONING"
    by (simp_all add: svc_acme_eq lookup_def getAllStores_def)
  note completed = provisionStore_healthy [OF reg(1), of world0]
  have made: "urls (objs (set_ready ?sn 0 svc_acme) ! 0)
       = \<lparr>storefront = Some ''http://acme-3f2a9c1e.local'',
          admin = Some ''http://acme-3f2a9c1e-admin.local''\<rparr>"
    by (simp add: set_ready_def modify_def svc_acme_eq)
  show ?thesis
    using urls_until_ready [where e = env_healthy and svc = svc_acme and s = "objs svc_acme ! 0"
        and svc' = svc_acme and sn = ?sn and ref = 0 and engine' = MEDUSA and w = world0]
      svc_acme_reachable reg completed made
    by simp
qed

text \<open>
  Claim C1 as it is stated fails in both directions. \<open>refreshStoreStatus\<close> sets a
  \<open>PROVISIONING\<close> record \<open>READY\<close> and leaves its URLs empty. \<open>deleteStore\<close> never
  clears the URLs: a \<open>READY\<close> record whose namespace cannot be deleted ends \<open>FAILED\<close>
  with both URLs still set.
\<close>

theorem urls_iff_ready_counterexample:
  "status (objs (fst (snd (refreshStoreStatus env_healthy ''acme-3f2a9c1e'' svc_acme world0))) ! 0)
     = READY
   \<and> urls (objs (fst (snd (refreshStoreStatus env_healthy ''acme-3f2a9c1e'' svc_acme world0))) ! 0)
       = \<lparr>storefront = None, admin = None\<rparr>
   \<and> status (objs (fst (provisioning_task env_healthy 0 ''acme-3f2a9c1e'' MEDUSA svc_acme world0))
               ! 0) = READY
   \<and> status (objs (fst (snd (deleteStore env_down ''acme-3f2a9c1e''
         (fst (provisioning_task env_healthy 0 ''acme-3f2a9c1e'' MEDUSA svc_acme world0))
         world0))) ! 0) = FAILED
   \<and> urls (objs (fst (snd (deleteStore env_down ''acme-3f2a9c1e''
         (fst (provisioning_task env_healthy 0 ''acme-3f2a9c1e'' MEDUSA svc_acme world0))
         world0))) ! 0)
       = \<lparr>storefront = Some ''http://acme-3f2a9c1e.local'',
          admin = Some ''http://acme-3f2a9c1e-admin.local''\<rparr>"
proof -
  let ?sn = "''acme-3f2a9c1e''"
  have reg: "lookup svc_acme ?sn = Some 0"
    by (simp add: svc_acme_eq lookup_def)
  have refreshed: "fst (snd (refreshStoreStatus env_healthy ?sn svc_acme world0))
                     = refresh_ready 0 svc_acme"
    using ready_healthy [of "namespace (objs svc_acme ! 0)" ?sn world0] reg
    by (cases "checkResourceStatus env_healthy (namespace (objs svc_acme ! 0)) ?sn world0")
       (simp add: refreshStoreStatus_def svc_acme_eq)
  have provisioned: "fst (provisioning_task env_healthy 0 ?sn MEDUSA svc_acme world0)
                       = set_ready ?sn 0 svc_acme"
    using provisionStore_healthy [OF reg] by simp
  have deleted: "fst (snd (deleteStore env_down ?sn (set_ready ?sn 0 svc_acme) world0))
      = set_failed 0 ''Deletion failed: Internal Server Error''
          (mark_deleting 0 (set_ready ?sn 0 svc_acme))"
    by (simp add: deleteStore_def lookup_def set_ready_def modify_def svc_acme_eq Let_def
        deleteNamespace_def create_ignoring_def api_def env_down_def simple_env_def api_error_def)
  show ?thesis
    unfolding refreshed provisioned deleted
    by (simp add: refresh_ready_def set_ready_def set_failed_def mark_deleting_def modify_def
        svc_acme_eq)
qed

lemma left_modify:
  assumes "ref < length (objs svc)" and "status (objs svc ! ref) \<noteq> PROVISIONING"
    and "\<And>s. status (f s) \<noteq> PROVISIONING"
  shows "ref < length (objs (modify r f svc)) \<and> status (objs (modify r f svc) ! ref) \<noteq> PROVISIONING"
  using assms by (cases "r = ref") (simp_all add: modify_def)

lemma left_register:
  assumes "ref < length (objs svc)" and "status (objs svc ! ref) \<noteq> PROVISIONING"
  shows "ref < length (objs (register s svc)) \<and> status (objs (register s svc) ! ref) \<noteq> PROVISIONING"
  using assms by (simp add: register_def nth_append)

lemma left_loads:
  assumes "ref < length (objs svc)" and "status (objs svc ! ref) \<noteq> PROVISIONING"
  shows "ref < length (objs (fold (load_namespace created) nss svc)) \<and>
         status (objs (fold (load_namespace created) nss svc) ! ref) \<noteq> PROVISIONING"
proof -
  let ?svc' = "fold (load_namespace created) nss svc"
  obtain new where "objs ?svc' = objs svc @ new"
    using loads_new [of svc created nss] by (metis append_take_drop_id)
  with assms show ?thesis by (simp add: nth_append)
qed

lemma left_step:
  assumes "ref < length (objs svc)" and "status (objs svc ! ref) \<noteq> PROVISIONING"
  shows "ref < length (objs (step ev svc)) \<and> status (objs (step ev svc) ! ref) \<noteq> PROVISIONING"
proof (cases ev)
  case (Create request uuid created)
  with assms show ?thesis by (simp add: left_register)
next
  case (DeleteMark sn)
  with assms show ?thesis
    by (cases "lookup svc sn") (simp_all add: mark_deleting_def left_modify)
next
  case (DeleteDone r sn)
  with left_modify [OF assms, of "\<lambda>s. s\<lparr>status := DELETED\<rparr>" r] show ?thesis
    by (simp add: delete_done_def)
next
  case (LoadExisting nss created)
  with assms show ?thesis by (simp add: left_loads)
qed (insert assms, simp_all add: set_ready_def set_failed_def refresh_ready_def left_modify)

lemma left_run:
  "ref < length (objs svc) \<Longrightarrow> status (objs svc ! ref) \<noteq> PROVISIONING \<Longrightarrow>
   ref < length (objs (run evs svc)) \<and> status (objs (run evs svc) ! ref) \<noteq> PROVISIONING"
proof (induction evs arbitrary: svc)
  case Nil
  then show ?case by (simp add: run_Nil)
next
  case (Cons ev evs)
  from left_step [OF Cons.prems, of ev] Cons.IH [of "step ev svc"] show ?case
    by (simp add: run_Cons)
qed

lemma deleteStore_registered_events:
  assumes "lookup svc sn = Some r"
  shows "fst (snd (deleteStore e sn svc w)) = run [DeleteMark sn, DeleteDone r sn] svc
       \<or> (\<exists>msg. fst (snd (deleteStore e sn svc w)) = run [DeleteMark sn, Failed r msg] svc)"
proof -
  obtain res w' where del: "deleteNamespace e (namespace (objs (mark_deleting r svc) ! r)) w = (res, w')"
    by (cases "deleteNamespace e (namespace (objs (mark_deleting r svc) ! r)) w")
  show ?thesis
  proof (cases res)
    case (Inl err)
    with assms del have "fst (snd (deleteStore e sn svc w))
        = run [DeleteMark sn, Failed r (''Deletion failed: '' @ message err)] svc"
      by (simp add: deleteStore_def run_def Let_def)
    then show ?thesis by blast
  next
    case (Inr u)
    with assms del have "fst (snd (deleteStore e sn svc w)) = run [DeleteMark sn, DeleteDone r sn] svc"
      by (simp add: deleteStore_def run_def Let_def stores_modify mark_deleting_def delete_done_def)
    then show ?thesis by blast
  qed
qed

text \<open>
  Claim C2, as the code has it. No operation, and no block of an operation in any
  interleaving, sets the status of a record back to \<open>PROVISIONING\<close> once it has left
  that state. \<open>deleteStore\<close> on a registered record first sets its status to
  \<open>DELETING\<close>, whatever the status was, and then either marks it \<open>DELETED\<close> and removes
  it from the registry, or marks it \<open>FAILED\<close>.
\<close>

theorem never_back_to_provisioning:
  "((operation e)\<^sup>*\<^sup>* svc svc' \<and> ref < length (objs svc) \<and>
      status (objs svc ! ref) \<noteq> PROVISIONING \<longrightarrow>
        ref < length (objs svc') \<and> status (objs svc' ! ref) \<noteq> PROVISIONING)
   \<and> (ref < length (objs svc) \<and> status (objs svc ! ref) \<noteq> PROVISIONING \<longrightarrow>
        ref < length (objs (run evs svc)) \<and> status (objs (run evs svc) ! ref) \<noteq> PROVISIONING)
   \<and> (lookup svc sn = Some r \<and> r < length (objs svc) \<longrightarrow>
        status (objs (step (DeleteMark sn) svc) ! r) = DELETING \<and>
        (fst (snd (deleteStore e sn svc w)) = run [DeleteMark sn, DeleteDone r sn] svc \<or>
         (\<exists>msg. fst (snd (deleteStore e sn svc w)) = run [DeleteMark sn, Failed r msg] svc)))"
proof (intro conjI impI)
  {
    assume hyp: "(operation e)\<^sup>*\<^sup>* svc svc' \<and> ref < length (objs svc) \<and>
      status (objs svc ! ref) \<noteq> PROVISIONING"
    then obtain evs' where "svc' = run evs' svc"
      using operations_events by blast
    with hyp left_run [of ref svc evs']
    show "ref < length (objs svc')" and "status (objs svc' ! ref) \<noteq> PROVISIONING"
      by simp_all
  }
  {
    assume "ref < length (objs svc) \<and> status (objs svc ! ref) \<noteq> PROVISIONING"
    with left_run [of ref svc evs]
    show "ref < length (objs (run evs svc))"
      and "status (objs (run evs svc) ! ref) \<noteq> PROVISIONING"
      by simp_all
  }
  {
    assume hyp: "lookup svc sn = Some r \<and> r < length (objs svc)"
    then show "status (objs (step (DeleteMark sn) svc) ! r) = DELETING"
      by (simp add: mark_deleting_def nth_modify)
    from hyp deleteStore_registered_events [of svc sn r e w]
    show "fst (snd (deleteStore e sn svc w)) = run [DeleteMark sn, DeleteDone r sn] svc \<or>
         (\<exists>msg. fst (snd (deleteStore e sn svc w)) = run [DeleteMark sn, Failed r msg] svc)"
      by simp
  }
qed

theorem never_back_to_provisioning_witness:
  "(operation env_down)\<^sup>*\<^sup>* (set_ready ''acme-3f2a9c1e'' 0 svc_acme)
       (fst (snd (deleteStore env_down ''acme-3f2a9c1e'' (set_ready ''acme-3f2a9c1e'' 0 svc_acme)
                    world0)))
   \<and> 0 < length (objs (set_ready ''acme-3f2a9c1e'' 0 svc_acme))
   \<and> status (objs (set_ready ''acme-3f2a9c1e'' 0 svc_acme) ! 0) = READY
   \<and> status (objs (fst (snd (deleteStore env_down ''acme-3f2a9c1e''
                                (set_ready ''acme-3f2a9c1e'' 0 svc_acme) world0))) ! 0)
       \<noteq> PROVISIONING
   \<and> status (objs (run [RefreshReady 0, Failed 0 ''x'', DeleteMark ''acme-3f2a9c1e'']
                     (set_ready ''acme-3f2a9c1e'' 0 svc_acme)) ! 0) \<noteq> PROVISIONING
   \<and> lookup (set_ready ''acme-3f2a9c1e'' 0 svc_acme) ''acme-3f2a9c1e'' = Some 0
   \<and> status (objs (step (DeleteMark ''acme-3f2a9c1e'') (set_ready ''acme-3f2a9c1e'' 0 svc_acme))
               ! 0) = DELETING"
proof -
  let ?sn = "''acme-3f2a9c1e''"
  let ?svc = "set_ready ?sn 0 svc_acme"
  have reach: "(operation env_down)\<^sup>*\<^sup>* ?svc (fst (snd (deleteStore env_down ?sn ?svc world0)))"
    by (rule r_into_rtranclp) (rule op_delete)
  have reg: "lookup ?svc ?sn = Some 0" "0 < length (objs ?svc)" "status (objs ?svc ! 0) = READY"
    by (simp_all add: set_ready_def modify_def svc_acme_eq lookup_def)
  show ?thesis
    using never_back_to_provisioning [where e = env_down and svc = ?svc and ref = 0
        and svc' = "fst (snd (deleteStore env_down ?sn ?svc world0))"
        and evs = "[RefreshReady 0, Failed 0 ''x'', DeleteMark ?sn]"
        and sn = ?sn and r = 0 and w = world0]
      reach reg
    by simp
qed

text \<open>
  Claim C2 as it is stated fails: \<open>deleteStore\<close> does not look at the current status,
  so the status of a record that is \<open>PROVISIONING\<close> becomes \<open>DELETING\<close> (and then, when
  the deletion of the namespace fails, \<open>FAILED\<close>).
\<close>

theorem delete_while_provisioning_counterexample:
  "status (objs svc_acme ! 0) = PROVISIONING
   \<and> lookup svc_acme ''acme-3f2a9c1e'' = Some 0
   \<and> status (objs (step (DeleteMark ''acme-3f2a9c1e'') svc_acme) ! 0) = DELETING
   \<and> fst (snd (deleteStore env_down ''acme-3f2a9c1e'' svc_acme world0))
       = run [DeleteMark ''acme-3f2a9c1e'', Failed 0 ''Deletion failed: Internal Server Error'']
           svc_acme"
  by (simp add: deleteStore_def lookup_def run_def mark_deleting_def modify_def svc_acme_eq
      Let_def deleteNamespace_def create_ignoring_def api_def env_down_def simple_env_def
      api_error_def)

end
